theory Spec2Isabelle
  imports Main
begin

section \<open>Values\<close>

text \<open>
  Both servers exchange and store JSON documents. A number is kept as an integer (the
  only numbers the handlers compute are list indices and the millisecond clock), an
  object as the list of its members in property order, a string as its code units, taken
  below 256.
\<close>

datatype json =
    JNull
  | JBool bool
  | JNum int
  | JStr string
  | JArr "json list"
  | JObj "(string \<times> json) list"

text \<open>
  What a JavaScript expression can evaluate to in the handlers: a JSON value, the value
  \<open>undefined\<close>, a function inherited from \<open>Object.prototype\<close>, or
  \<open>Object.prototype\<close> itself (the value of the inherited accessor
  \<open>__proto__\<close>).
\<close>

datatype jsval = Undefined | Val json | Inherited | ObjectPrototype

text \<open>Truthiness, as the operator \<open>||\<close> tests it.\<close>

fun truthy :: "json \<Rightarrow> bool" where
  "truthy JNull = False"
| "truthy (JBool b) = b"
| "truthy (JNum n) = (n \<noteq> 0)"
| "truthy (JStr s) = (s \<noteq> [])"
| "truthy (JArr xs) = True"
| "truthy (JObj kvs) = True"

fun js_truthy :: "jsval \<Rightarrow> bool" where
  "js_truthy Undefined = False"
| "js_truthy (Val v) = truthy v"
| "js_truthy Inherited = True"
| "js_truthy ObjectPrototype = True"

text \<open>\<open>a || b\<close>\<close>

definition js_or :: "jsval \<Rightarrow> jsval \<Rightarrow> jsval" where
  "js_or a b = (if js_truthy a then a else b)"

text \<open>
  \<open>JSON.stringify\<close> of a value in a property position: a property whose value is
  \<open>undefined\<close> or a function is left out (\<open>None\<close>);
  \<open>Object.prototype\<close> has no enumerable property of its own and is written \<open>{}\<close>.
\<close>

fun stringify :: "jsval \<Rightarrow> json option" where
  "stringify Undefined = None"
| "stringify (Val v) = Some v"
| "stringify Inherited = None"
| "stringify ObjectPrototype = Some (JObj [])"

subsection \<open>Objects\<close>

text \<open>The property names every plain object inherits from \<open>Object.prototype\<close>.\<close>

definition inherited_names :: "string list" where
  "inherited_names =
     [''constructor'', ''__defineGetter__'', ''__defineSetter__'', ''hasOwnProperty'',
      ''__lookupGetter__'', ''__lookupSetter__'', ''isPrototypeOf'',
      ''propertyIsEnumerable'', ''toString'', ''valueOf'', ''toLocaleString'']"

text \<open>\<open>obj[k]\<close> on an object that \<open>JSON.parse\<close> built: own property first, then the prototype.\<close>

definition js_get :: "(string \<times> json) list \<Rightarrow> string \<Rightarrow> jsval" where
  "js_get ps k =
     (case map_of ps k of
        Some v \<Rightarrow> Val v
      | None \<Rightarrow>
          if k = ''__proto__'' then ObjectPrototype
          else if k \<in> set inherited_names then Inherited
          else Undefined)"

fun obj_set :: "string \<Rightarrow> json \<Rightarrow> (string \<times> json) list \<Rightarrow> (string \<times> json) list" where
  "obj_set k v [] = [(k, v)]"
| "obj_set k v (p # ps) = (if fst p = k then (k, v) # ps else p # obj_set k v ps)"

definition obj_del :: "string \<Rightarrow> (string \<times> json) list \<Rightarrow> (string \<times> json) list" where
  "obj_del k ps = filter (\<lambda>p. fst p \<noteq> k) ps"

text \<open>
  The own properties that \<open>JSON.stringify\<close> finds after \<open>obj[k] = v\<close>. Assigning to
  \<open>__proto__\<close> on an object without an own property of that name goes to the inherited
  setter, which creates no own property; a property set to \<open>undefined\<close> is not
  written out.
\<close>

definition js_assign :: "string \<Rightarrow> json option \<Rightarrow> (string \<times> json) list \<Rightarrow> (string \<times> json) list" where
  "js_assign k v ps =
     (if k = ''__proto__'' \<and> map_of ps k = None then ps
      else case v of Some j \<Rightarrow> obj_set k j ps | None \<Rightarrow> obj_del k ps)"

text \<open>\<open>req.body.name\<close> on a parsed request body.\<close>

definition body_prop :: "json \<Rightarrow> string \<Rightarrow> json option" where
  "body_prop b k = (case b of JObj ps \<Rightarrow> map_of ps k | _ \<Rightarrow> None)"

subsection \<open>Decimal index keys and object spread\<close>

definition digit_char :: "nat \<Rightarrow> char" where
  "digit_char d = char_of (48 + d)"

fun show_nat :: "nat \<Rightarrow> string" where
  "show_nat n = (if n < 10 then [digit_char n] else show_nat (n div 10) @ [digit_char (n mod 10)])"

declare show_nat.simps [simp del]

text \<open>The decimal numeral of an integer, as it appears in a request path.\<close>

definition show_int :: "int \<Rightarrow> string" where
  "show_int i = (if i < 0 then CHR ''-'' # show_nat (nat (- i)) else show_nat (nat i))"

text \<open>The own enumerable properties \<open>{...b}\<close> copies.\<close>

definition spread :: "json \<Rightarrow> (string \<times> json) list" where
  "spread b =
     (case b of
        JObj ps \<Rightarrow> ps
      | JArr xs \<Rightarrow> zip (map show_nat [0..<length xs]) xs
      | JStr s \<Rightarrow> zip (map show_nat [0..<length s]) (map (\<lambda>c. JStr [c]) s)
      | _ \<Rightarrow> [])"

subsection \<open>parseInt\<close>

definition is_space :: "char \<Rightarrow> bool" where
  "is_space c = (of_char c \<in> {9, 10, 11, 12, 13, 32, 160 :: nat})"

definition digit_val :: "char \<Rightarrow> nat option" where
  "digit_val c =
     (let n = (of_char c :: nat) in
      if 48 \<le> n \<and> n \<le> 57 then Some (n - 48)
      else if 97 \<le> n \<and> n \<le> 122 then Some (n - 87)
      else if 65 \<le> n \<and> n \<le> 90 then Some (n - 55)
      else None)"

definition is_digit :: "nat \<Rightarrow> char \<Rightarrow> bool" where
  "is_digit r c = (case digit_val c of Some d \<Rightarrow> d < r | None \<Rightarrow> False)"

definition digits_value :: "nat \<Rightarrow> string \<Rightarrow> nat" where
  "digits_value r ds = foldl (\<lambda>acc c. acc * r + the (digit_val c)) 0 ds"

text \<open>
  \<open>parseInt(s)\<close> with no radix: leading white space is dropped, then an optional sign,
  then a \<open>0x\<close> or \<open>0X\<close> prefix selects radix 16; the longest run of digits is read
  and whatever follows it is ignored. \<open>None\<close> is \<open>NaN\<close>. The white space characters
  are those below 256: tab, line feed, vertical tab, form feed, carriage return, space and
  no-break space.
\<close>

definition parseInt :: "string \<Rightarrow> int option" where
  "parseInt s =
     (let t = dropWhile is_space s;
          neg = (t \<noteq> [] \<and> hd t = CHR ''-'');
          u = (if t \<noteq> [] \<and> (hd t = CHR ''-'' \<or> hd t = CHR ''+'') then tl t else t);
          hex = (take 2 u = ''0x'' \<or> take 2 u = ''0X'');
          r = (if hex then 16 else 10);
          w = (if hex then drop 2 u else u);
          ds = takeWhile (is_digit r) w
      in if ds = [] then None
         else Some ((if neg then - 1 else 1) * int (digits_value r ds)))"

section \<open>JSON text\<close>

text \<open>
  The text of a JSON document, as PostgreSQL reads it into a \<open>JSONB\<close> value: white
  space is blank, tab, line feed and carriage return; a string may not hold a raw control
  character and its escapes are the eight single-letter ones and \<open>\uXXXX\<close>; a number
  has no leading zero. Two texts have no document here and are refused: a number that
  is not an integer, and an escape that names a character outside the strings of this
  theory (code 256 and above) or the character zero, which \<open>JSONB\<close> itself refuses.
\<close>

definition is_json_ws :: "char \<Rightarrow> bool" where
  "is_json_ws c = (of_char c \<in> {9, 10, 13, 32 :: nat})"

definition skip_ws :: "string \<Rightarrow> string" where
  "skip_ws s = dropWhile is_json_ws s"

definition unescape :: "char \<Rightarrow> char option" where
  "unescape c =
     (if c = CHR ''\"'' then Some c
      else if c = CHR 0x5C then Some c
      else if c = CHR ''/'' then Some c
      else if c = CHR ''b'' then Some (CHR 0x08)
      else if c = CHR ''f'' then Some (CHR 0x0C)
      else if c = CHR ''n'' then Some (CHR 0x0A)
      else if c = CHR ''r'' then Some (CHR 0x0D)
      else if c = CHR ''t'' then Some (CHR 0x09)
      else None)"

definition hex4 :: "string \<Rightarrow> nat option" where
  "hex4 h = (if length h = 4 \<and> list_all (is_digit 16) h then Some (digits_value 16 h) else None)"

text \<open>The rest of a string after its opening quote: the characters and what follows the closing quote.\<close>

function lex_string :: "string \<Rightarrow> string \<Rightarrow> (string \<times> string) option" where
  "lex_string acc [] = None"
| "lex_string acc [c] = (if c = CHR ''\"'' then Some (rev acc, []) else None)"
| "lex_string acc (c # e # r) =
     (if c = CHR ''\"'' then Some (rev acc, e # r)
      else if c = CHR 0x5C then
        (if e = CHR ''u'' then
           (case hex4 (take 4 r) of
              None \<Rightarrow> None
            | Some n \<Rightarrow> if 0 < n \<and> n < 256 then lex_string (char_of n # acc) (drop 4 r) else None)
         else
           (case unescape e of
              None \<Rightarrow> None
            | Some x \<Rightarrow> lex_string (x # acc) r))
      else if (of_char c :: nat) < 32 then None
      else lex_string (c # acc) (e # r))"
  by pat_completeness auto
termination
  by (relation "measure (\<lambda>(acc, s). length s)") auto

text \<open>
  A decimal numeral with optional fraction and exponent, as the mantissa and the power of
  ten of its value, and what follows it. \<open>None\<close>: no digit where one is required.
\<close>

definition lex_decimal :: "string \<Rightarrow> ((nat \<times> int) \<times> string) option" where
  "lex_decimal s =
     (let ip = takeWhile (is_digit 10) s;
          r1 = dropWhile (is_digit 10) s;
          dot = (r1 \<noteq> [] \<and> hd r1 = CHR ''.'');
          fp = (if dot then takeWhile (is_digit 10) (tl r1) else []);
          r2 = (if dot then dropWhile (is_digit 10) (tl r1) else r1);
          ex = (r2 \<noteq> [] \<and> (hd r2 = CHR ''e'' \<or> hd r2 = CHR ''E''));
          r3 = (if ex then tl r2 else r2);
          eneg = (ex \<and> r3 \<noteq> [] \<and> hd r3 = CHR ''-'');
          r4 = (if ex \<and> r3 \<noteq> [] \<and> (hd r3 = CHR ''-'' \<or> hd r3 = CHR ''+'') then tl r3 else r3);
          ep = (if ex then takeWhile (is_digit 10) r4 else []);
          rest = (if ex then dropWhile (is_digit 10) r4 else r2);
          e10 = (if eneg then - int (digits_value 10 ep) else int (digits_value 10 ep))
      in if ip = [] \<and> fp = [] then None
         else if ex \<and> ep = [] then None
         else Some ((digits_value 10 (ip @ fp), e10 - int (length fp)), rest))"

text \<open>The integer \<open>m\<close> times ten to the \<open>e\<close>, when that is an integer.\<close>

definition scale10 :: "int \<Rightarrow> int \<Rightarrow> int option" where
  "scale10 m e =
     (if 0 \<le> e then Some (m * 10 ^ nat e)
      else if m mod 10 ^ nat (- e) = 0 then Some (m div 10 ^ nat (- e))
      else None)"

definition lex_number :: "string \<Rightarrow> (json \<times> string) option" where
  "lex_number s =
     (let neg = (s \<noteq> [] \<and> hd s = CHR ''-'');
          u = (if neg then tl s else s);
          ip = takeWhile (is_digit 10) u;
          r1 = dropWhile (is_digit 10) u
      in if ip = [] then None
         else if 1 < length ip \<and> hd ip = CHR ''0'' then None
         else if r1 \<noteq> [] \<and> hd r1 = CHR ''.'' \<and> takeWhile (is_digit 10) (tl r1) = [] then None
         else case lex_decimal u of
                None \<Rightarrow> None
              | Some ((m, e), rest) \<Rightarrow>
                  (case scale10 (int m) e of
                     None \<Rightarrow> None
                   | Some n \<Rightarrow> Some (JNum (if neg then - n else n), rest)))"

text \<open>
  The parser, with a bound on the number of nested calls so that it is a total function;
  \<open>jsonb_in\<close> gives it more than a text of that length can use.
\<close>

fun parse_value :: "nat \<Rightarrow> string \<Rightarrow> (json \<times> string) option"
  and parse_elems :: "nat \<Rightarrow> json list \<Rightarrow> string \<Rightarrow> (json \<times> string) option"
  and parse_members :: "nat \<Rightarrow> (string \<times> json) list \<Rightarrow> string \<Rightarrow> (json \<times> string) option" where
  "parse_value 0 s = None"
| "parse_value (Suc n) s =
     (let t = skip_ws s in
      if t = [] then None
      else if hd t = CHR ''{'' then
        (if skip_ws (tl t) \<noteq> [] \<and> hd (skip_ws (tl t)) = CHR ''}''
         then Some (JObj [], tl (skip_ws (tl t)))
         else parse_members n [] (tl t))
      else if hd t = CHR ''['' then
        (if skip_ws (tl t) \<noteq> [] \<and> hd (skip_ws (tl t)) = CHR '']''
         then Some (JArr [], tl (skip_ws (tl t)))
         else parse_elems n [] (tl t))
      else if hd t = CHR ''\"'' then
        (case lex_string [] (tl t) of None \<Rightarrow> None | Some (x, r) \<Rightarrow> Some (JStr x, r))
      else if take 4 t = ''true'' then Some (JBool True, drop 4 t)
      else if take 5 t = ''false'' then Some (JBool False, drop 5 t)
      else if take 4 t = ''null'' then Some (JNull, drop 4 t)
      else lex_number t)"
| "parse_elems 0 acc s = None"
| "parse_elems (Suc n) acc s =
     (case parse_value n s of
        None \<Rightarrow> None
      | Some (v, r) \<Rightarrow>
          (let t = skip_ws r in
           if t = [] then None
           else if hd t = CHR '','' then parse_elems n (acc @ [v]) (tl t)
           else if hd t = CHR '']'' then Some (JArr (acc @ [v]), tl t)
           else None))"
| "parse_members 0 acc s = None"
| "parse_members (Suc n) acc s =
     (let t = skip_ws s in
      if t = [] then None
      else if hd t = CHR ''\"'' then
        (case lex_string [] (tl t) of
           None \<Rightarrow> None
         | Some (key, r) \<Rightarrow>
             (let t1 = skip_ws r in
              if t1 = [] then None
              else if hd t1 = CHR '':'' then
                (case parse_value n (tl t1) of
                   None \<Rightarrow> None
                 | Some (v, r2) \<Rightarrow>
                     (let t2 = skip_ws r2 in
                      if t2 = [] then None
                      else if hd t2 = CHR '','' then parse_members n (obj_set key v acc) (tl t2)
                      else if hd t2 = CHR ''}'' then Some (JObj (obj_set key v acc), tl t2)
                      else None))
              else None))
      else None)"

definition jsonb_in :: "string \<Rightarrow> json option" where
  "jsonb_in s =
     (case parse_value (2 * length s + 2) s of
        None \<Rightarrow> None
      | Some (v, r) \<Rightarrow> if skip_ws r = [] then Some v else None)"

text \<open>The strings of a document: its string values and member names, at any depth.\<close>

fun strings_of :: "json \<Rightarrow> string list" where
  "strings_of JNull = []"
| "strings_of (JBool b) = []"
| "strings_of (JNum n) = []"
| "strings_of (JStr s) = [s]"
| "strings_of (JArr xs) = concat (map strings_of xs)"
| "strings_of (JObj ps) = map fst ps @ concat (map (\<lambda>p. strings_of (snd p)) ps)"

text \<open>\<open>JSONB\<close> refuses a document that holds the character zero in a string.\<close>

definition jsonb_ok :: "json \<Rightarrow> bool" where
  "jsonb_ok j = (CHR 0x00 \<notin> set (concat (strings_of j)))"

section \<open>Number coercion\<close>

text \<open>
  \<open>index < x.length\<close> converts its right operand to a number. \<open>Dec m e\<close> is
  \<open>m\<close> times ten to the \<open>e\<close>, taken exactly; \<open>Inf True\<close> is \<open>Infinity\<close>.
\<close>

datatype jsnum = NaN | Inf bool | Dec int int

definition trim :: "string \<Rightarrow> string" where
  "trim s = rev (dropWhile is_space (rev (dropWhile is_space s)))"

definition radix_literal :: "nat \<Rightarrow> string \<Rightarrow> jsnum" where
  "radix_literal r ds =
     (if ds \<noteq> [] \<and> list_all (is_digit r) ds then Dec (int (digits_value r ds)) 0 else NaN)"

text \<open>\<open>Number(s)\<close> for a string: the whole trimmed string must be one numeric literal.\<close>

definition string_to_number :: "string \<Rightarrow> jsnum" where
  "string_to_number s =
     (let t = trim s in
      if t = [] then Dec 0 0
      else if take 2 t = ''0x'' \<or> take 2 t = ''0X'' then radix_literal 16 (drop 2 t)
      else if take 2 t = ''0o'' \<or> take 2 t = ''0O'' then radix_literal 8 (drop 2 t)
      else if take 2 t = ''0b'' \<or> take 2 t = ''0B'' then radix_literal 2 (drop 2 t)
      else
        let neg = (hd t = CHR ''-'');
            u = (if hd t = CHR ''-'' \<or> hd t = CHR ''+'' then tl t else t)
        in if u = ''Infinity'' then Inf (\<not> neg)
           else case lex_decimal u of
                  None \<Rightarrow> NaN
                | Some ((m, e), rest) \<Rightarrow>
                    if rest = [] then Dec (if neg then - int m else int m) e else NaN)"

fun join_comma :: "string list \<Rightarrow> string" where
  "join_comma [] = []"
| "join_comma [s] = s"
| "join_comma (s # t # ss) = s @ '','' @ join_comma (t # ss)"

text \<open>
  The string of an array element in \<open>Array.prototype.join\<close>. \<open>None\<close> is
  \<open>TypeError\<close>: an object whose own member \<open>toString\<close> hides the inherited function
  cannot be converted.
\<close>

fun elem_string :: "json \<Rightarrow> string option" where
  "elem_string JNull = Some []"
| "elem_string (JBool b) = Some (if b then ''true'' else ''false'')"
| "elem_string (JNum n) = Some (show_int n)"
| "elem_string (JStr s) = Some s"
| "elem_string (JArr xs) =
     (if None \<in> set (map elem_string xs) then None
      else Some (join_comma (map (\<lambda>x. the (elem_string x)) xs)))"
| "elem_string (JObj ps) =
     (if ''toString'' \<in> set (map fst ps) then None else Some ''[object Object]'')"

definition to_number :: "json \<Rightarrow> jsnum option" where
  "to_number v =
     (case v of
        JNull \<Rightarrow> Some (Dec 0 0)
      | JBool b \<Rightarrow> Some (Dec (if b then 1 else 0) 0)
      | JNum n \<Rightarrow> Some (Dec n 0)
      | JStr s \<Rightarrow> Some (string_to_number s)
      | JArr xs \<Rightarrow> map_option string_to_number (elem_string (JArr xs))
      | JObj ps \<Rightarrow> if ''toString'' \<in> set (map fst ps) then None else Some NaN)"

text \<open>\<open>i < x\<close> for an integer \<open>i\<close>.\<close>

definition lt_num :: "int \<Rightarrow> jsnum \<Rightarrow> bool" where
  "lt_num i x =
     (case x of
        NaN \<Rightarrow> False
      | Inf pos \<Rightarrow> pos
      | Dec m e \<Rightarrow> if 0 \<le> e then i < m * 10 ^ nat e else i * 10 ^ nat (- e) < m)"

section \<open>Requests, replies and the environment\<close>

text \<open>
  \<open>Reply status body\<close> is what \<open>res.status(status).json(...)\<close> sends; the body is
  \<open>None\<close> when \<open>JSON.stringify\<close> yields \<open>undefined\<close>. \<open>Threw\<close> is a handler
  that raised before sending anything.
\<close>

datatype reply = Reply nat "json option" | Threw

text \<open>
  What a handler takes from outside the program: the clock (\<open>Date.now()\<close>, and the ISO
  time of the health route) and the built-in \<open>decodeURIComponent\<close>, which raises
  \<open>URIError\<close> (\<open>None\<close>) on a malformed escape.
\<close>

record env =
  now :: int
  iso_now :: string
  decodeURIComponent :: "string \<Rightarrow> string option"

text \<open>An object literal: properties whose value does not serialise are left out.\<close>

definition obj_lit :: "(string \<times> jsval) list \<Rightarrow> json" where
  "obj_lit ps =
     JObj (concat (map (\<lambda>(k, v). case stringify v of Some j \<Rightarrow> [(k, j)] | None \<Rightarrow> []) ps))"

definition or_else :: "json \<Rightarrow> json \<Rightarrow> json" where
  "or_else a b = (if truthy a then a else b)"

definition opt_val :: "json option \<Rightarrow> jsval" where
  "opt_val v = (case v of Some j \<Rightarrow> Val j | None \<Rightarrow> Undefined)"

definition success_reply :: "bool \<Rightarrow> reply" where
  "success_reply ok = Reply 200 (Some (JObj [(''success'', JBool ok)]))"

definition bad_index :: reply where
  "bad_index = Reply 400 (Some (JObj [(''success'', JBool False), (''error'', JStr ''Index invalide'')]))"

definition members :: "string list" where
  "members = [''Lead Guitar'', ''Bass'', ''Drums'', ''Keys'', ''Saxophone'', ''Vocals'']"

text \<open>\<open>xs.splice(i, 1)\<close> for an index inside the array.\<close>

definition splice1 :: "nat \<Rightarrow> 'a list \<Rightarrow> 'a list" where
  "splice1 i xs = take i xs @ drop (Suc i) xs"

text \<open>\<open>{...body, addedAt: Date.now()}\<close>\<close>

definition stamp :: "env \<Rightarrow> json \<Rightarrow> json" where
  "stamp e b = JObj (obj_set ''addedAt'' (JNum (now e)) (spread b))"

section \<open>The PostgreSQL server\<close>

text \<open>
  The table \<open>app_data\<close> has one row for each key (\<open>key\<close> is \<open>UNIQUE\<close>) and its
  \<open>value\<close> column is \<open>JSONB NOT NULL\<close>. \<open>connected\<close> tells whether a query reaches
  the database; a query that does not is the \<open>catch\<close> branch.
\<close>

record db =
  app_data :: "string \<rightharpoonup> json"
  connected :: bool

definition getData :: "db \<Rightarrow> string \<Rightarrow> json" where
  "getData d k =
     (if connected d then (case app_data d k of Some v \<Rightarrow> v | None \<Rightarrow> JNull)
      else JNull)"

text \<open>
  What the \<open>JSONB\<close> column receives for the second parameter of the upsert. The
  handlers pass the JavaScript value to \<open>pool.query\<close> as it is, and the driver binds
  \<open>null\<close> and \<open>undefined\<close> as SQL \<open>NULL\<close>, an array as a PostgreSQL array literal,
  a string as its own text, and an object, a number or a boolean as its JSON text. The
  array literal of the empty array is \<open>{}\<close>, the text of the empty object; that of
  a non-empty array is not JSON text. \<open>None\<close>: the column refuses the parameter.
\<close>

definition bound_document :: "json option \<Rightarrow> json option" where
  "bound_document v =
     (case v of
        None \<Rightarrow> None
      | Some j \<Rightarrow>
          (case j of
             JNull \<Rightarrow> None
           | JArr xs \<Rightarrow> if xs = [] then Some (JObj []) else None
           | JStr s \<Rightarrow> jsonb_in s
           | _ \<Rightarrow> if jsonb_ok j then Some j else None))"

text \<open>The \<open>key\<close> column is \<open>VARCHAR(255)\<close>, and no text holds the character zero.\<close>

definition key_ok :: "string \<Rightarrow> bool" where
  "key_ok k = (length k \<le> 255 \<and> CHR 0x00 \<notin> set k)"

text \<open>
  The upsert. When the statement fails, for a refused key or value or an unreachable
  database, the function returns \<open>false\<close> and the table is as it was.
\<close>

definition setData :: "db \<Rightarrow> string \<Rightarrow> json option \<Rightarrow> bool \<times> db" where
  "setData d k v =
     (case bound_document v of
        None \<Rightarrow> (False, d)
      | Some j \<Rightarrow>
          if connected d \<and> key_ok k then (True, d\<lparr>app_data := (app_data d)(k \<mapsto> j)\<rparr>)
          else (False, d))"

definition deleteData :: "db \<Rightarrow> string \<Rightarrow> bool \<times> db" where
  "deleteData d k =
     (if connected d then (True, d\<lparr>app_data := (app_data d)(k := None)\<rparr>) else (False, d))"

definition pg_health :: "env \<Rightarrow> db \<Rightarrow> reply" where
  "pg_health e d =
     (if connected d
      then Reply 200 (Some (JObj [(''status'', JStr ''ok''), (''database'', JStr ''connected''),
                                   (''timestamp'', JStr (iso_now e))]))
      else Reply 500 (Some (JObj [(''status'', JStr ''error''), (''database'', JStr ''disconnected'')])))"

definition pg_get_current_user :: "db \<Rightarrow> string \<Rightarrow> reply" where
  "pg_get_current_user d userId =
     (let user = getData d (''current_user_'' @ userId)
      in Reply 200 (Some (obj_lit [(''user'', Val user)])))"

definition pg_post_current_user :: "db \<Rightarrow> string \<Rightarrow> json \<Rightarrow> db \<times> reply" where
  "pg_post_current_user d userId b =
     (let u = body_prop b ''user'';
          (success, d') = setData d (''current_user_'' @ userId) u
      in (d', Reply 200 (Some (obj_lit [(''success'', Val (JBool success)), (''user'', opt_val u)]))))"

definition pg_availability_key :: "string \<Rightarrow> string \<Rightarrow> string \<Rightarrow> string" where
  "pg_availability_key m y mo = ''availability_'' @ m @ ''_'' @ y @ ''_'' @ mo"

definition pg_get_availability :: "env \<Rightarrow> db \<Rightarrow> string \<Rightarrow> string \<Rightarrow> string \<Rightarrow> reply" where
  "pg_get_availability e d member year month =
     (case decodeURIComponent e member of
        None \<Rightarrow> Threw
      | Some decodedMember \<Rightarrow>
          let availability = getData d (pg_availability_key decodedMember year month)
          in Reply 200 (Some (or_else availability (JObj []))))"

definition pg_post_availability :: "env \<Rightarrow> db \<Rightarrow> string \<Rightarrow> string \<Rightarrow> string \<Rightarrow> json \<Rightarrow> db \<times> reply" where
  "pg_post_availability e d member year month b =
     (case decodeURIComponent e member of
        None \<Rightarrow> (d, Threw)
      | Some decodedMember \<Rightarrow>
          let (success, d') = setData d (pg_availability_key decodedMember year month) (Some b)
          in (d', success_reply success))"

definition pg_get_all_availability :: "db \<Rightarrow> string \<Rightarrow> string \<Rightarrow> reply" where
  "pg_get_all_availability d year month =
     Reply 200 (Some (JObj (map (\<lambda>member.
        (member, or_else (getData d (pg_availability_key member year month)) (JObj []))) members)))"

definition pg_get_list :: "db \<Rightarrow> string \<Rightarrow> reply" where
  "pg_get_list d k = Reply 200 (Some (or_else (getData d k) (JArr [])))"

text \<open>
  \<open>push\<close> exists on arrays only: on any other truthy stored value the handler raises
  \<open>TypeError\<close> before it writes.
\<close>

definition pg_push :: "db \<Rightarrow> string \<Rightarrow> string \<Rightarrow> json \<Rightarrow> db \<times> reply" where
  "pg_push d k label item =
     (case or_else (getData d k) (JArr []) of
        JArr xs \<Rightarrow>
          let (success, d') = setData d k (Some (JArr (xs @ [item])))
          in (d', Reply 200 (Some (JObj [(''success'', JBool success), (label, item)])))
      | _ \<Rightarrow> (d, Threw))"

definition pg_post_concerts :: "env \<Rightarrow> db \<Rightarrow> json \<Rightarrow> db \<times> reply" where
  "pg_post_concerts e d b = pg_push d ''concerts'' ''concert'' (stamp e b)"

definition pg_post_links :: "db \<Rightarrow> json \<Rightarrow> db \<times> reply" where
  "pg_post_links d b = pg_push d ''links'' ''link'' b"

text \<open>
  The two delete handlers, after \<open>const index = parseInt(req.params.index)\<close>. In
  \<open>index >= 0 && index < x.length\<close> a comparison with \<open>NaN\<close> or with an undefined
  \<open>length\<close> is false. An array and a string have their length; a stored object has
  the member \<open>length\<close> if it has one, converted to a number; a stored number or boolean
  has none. \<open>splice\<close> exists on arrays only. The log line after the write reads a
  property of the deleted element, which raises when that element is \<open>null\<close>.
\<close>

definition pg_delete_at :: "db \<Rightarrow> string \<Rightarrow> int option \<Rightarrow> db \<times> reply" where
  "pg_delete_at d k index =
     (let list = or_else (getData d k) (JArr []) in
      case index of
        None \<Rightarrow> (d, bad_index)
      | Some i \<Rightarrow>
          if 0 \<le> i then
            (case list of
               JArr xs \<Rightarrow>
                 if i < int (length xs) then
                   let deleted = xs ! nat i;
                       (success, d') = setData d k (Some (JArr (splice1 (nat i) xs)))
                   in (d', if deleted = JNull then Threw else success_reply success)
                 else (d, bad_index)
             | JStr s \<Rightarrow> if i < int (length s) then (d, Threw) else (d, bad_index)
             | JObj ps \<Rightarrow>
                 (case map_of ps ''length'' of
                    None \<Rightarrow> (d, bad_index)
                  | Some l \<Rightarrow>
                      (case to_number l of
                         None \<Rightarrow> (d, Threw)
                       | Some n \<Rightarrow> if lt_num i n then (d, Threw) else (d, bad_index)))
             | _ \<Rightarrow> (d, bad_index))
          else (d, bad_index))"

definition pg_delete_concerts :: "db \<Rightarrow> string \<Rightarrow> db \<times> reply" where
  "pg_delete_concerts d index = pg_delete_at d ''concerts'' (parseInt index)"

definition pg_delete_links :: "db \<Rightarrow> string \<Rightarrow> db \<times> reply" where
  "pg_delete_links d index = pg_delete_at d ''links'' (parseInt index)"

section \<open>The flat-file server\<close>

text \<open>
  \<open>data.json\<close> holds one document with four fields. \<open>Content doc\<close> is a file that
  parses to such a document, \<open>Corrupt\<close> one whose text \<open>JSON.parse\<close> rejects,
  \<open>Missing\<close> one that cannot be read. \<open>writable\<close> tells whether \<open>fs.writeFile\<close>
  succeeds.
\<close>

record document =
  availabilities :: "(string \<times> json) list"
  concerts :: "json list"
  links :: "json list"
  currentUsers :: "(string \<times> json) list"

datatype file_state = Missing | Corrupt | Content document

record disk =
  data_file :: file_state
  writable :: bool

definition initialData :: document where
  "initialData = \<lparr>availabilities = [], concerts = [], links = [], currentUsers = []\<rparr>"

definition doc_json :: "document \<Rightarrow> json" where
  "doc_json doc =
     JObj [(''availabilities'', JObj (availabilities doc)), (''concerts'', JArr (concerts doc)),
           (''links'', JArr (links doc)), (''currentUsers'', JObj (currentUsers doc))]"

text \<open>\<open>None\<close>: the write was refused and the rejection left \<open>startServer\<close>.\<close>

definition initDataFile :: "disk \<Rightarrow> disk option" where
  "initDataFile k =
     (case data_file k of
        Missing \<Rightarrow> if writable k then Some (k\<lparr>data_file := Content initialData\<rparr>) else None
      | _ \<Rightarrow> Some k)"

definition readData :: "disk \<Rightarrow> document" where
  "readData k = (case data_file k of Content doc \<Rightarrow> doc | _ \<Rightarrow> initialData)"

definition writeData :: "disk \<Rightarrow> document \<Rightarrow> bool \<times> disk" where
  "writeData k doc = (if writable k then (True, k\<lparr>data_file := Content doc\<rparr>) else (False, k))"

definition ff_health :: "env \<Rightarrow> reply" where
  "ff_health e = Reply 200 (Some (JObj [(''status'', JStr ''ok''), (''timestamp'', JStr (iso_now e))]))"

definition ff_get_data :: "disk \<Rightarrow> reply" where
  "ff_get_data k = Reply 200 (Some (doc_json (readData k)))"

definition ff_get_current_user :: "disk \<Rightarrow> string \<Rightarrow> reply" where
  "ff_get_current_user k userId =
     (let data = readData k;
          user = js_or (js_get (currentUsers data) userId) (Val JNull)
      in Reply 200 (Some (obj_lit [(''user'', user)])))"

definition ff_post_current_user :: "disk \<Rightarrow> string \<Rightarrow> json \<Rightarrow> disk \<times> reply" where
  "ff_post_current_user k userId b =
     (let data = readData k;
          u = body_prop b ''user'';
          data' = data\<lparr>currentUsers := js_assign userId u (currentUsers data)\<rparr>;
          (success, k') = writeData k data'
      in (k', Reply 200 (Some (obj_lit [(''success'', Val (JBool success)), (''user'', opt_val u)]))))"

definition ff_availability_key :: "string \<Rightarrow> string \<Rightarrow> string \<Rightarrow> string" where
  "ff_availability_key m y mo = m @ ''_'' @ y @ ''_'' @ mo"

definition ff_get_availability :: "env \<Rightarrow> disk \<Rightarrow> string \<Rightarrow> string \<Rightarrow> string \<Rightarrow> reply" where
  "ff_get_availability e k member year month =
     (case decodeURIComponent e member of
        None \<Rightarrow> Threw
      | Some decodedMember \<Rightarrow>
          let data = readData k;
              availability = js_or (js_get (availabilities data)
                                      (ff_availability_key decodedMember year month)) (Val (JObj []))
          in Reply 200 (stringify availability))"

definition ff_post_availability :: "env \<Rightarrow> disk \<Rightarrow> string \<Rightarrow> string \<Rightarrow> string \<Rightarrow> json \<Rightarrow> disk \<times> reply" where
  "ff_post_availability e k member year month b =
     (case decodeURIComponent e member of
        None \<Rightarrow> (k, Threw)
      | Some decodedMember \<Rightarrow>
          let data = readData k;
              data' = data\<lparr>availabilities :=
                        js_assign (ff_availability_key decodedMember year month) (Some b)
                          (availabilities data)\<rparr>;
              (success, k') = writeData k data'
          in (k', success_reply success))"

definition ff_get_all_availability :: "disk \<Rightarrow> string \<Rightarrow> string \<Rightarrow> reply" where
  "ff_get_all_availability k year month =
     (let data = readData k
      in Reply 200 (Some (obj_lit (map (\<lambda>member.
           (member, js_or (js_get (availabilities data) (ff_availability_key member year month))
                      (Val (JObj [])))) members))))"

definition ff_get_concerts :: "disk \<Rightarrow> reply" where
  "ff_get_concerts k = Reply 200 (Some (JArr (concerts (readData k))))"

definition ff_post_concerts :: "env \<Rightarrow> disk \<Rightarrow> json \<Rightarrow> disk \<times> reply" where
  "ff_post_concerts e k b =
     (let data = readData k;
          newConcert = stamp e b;
          data' = data\<lparr>concerts := concerts data @ [newConcert]\<rparr>;
          (success, k') = writeData k data'
      in (k', Reply 200 (Some (JObj [(''success'', JBool success), (''concert'', newConcert)]))))"

definition ff_get_links :: "disk \<Rightarrow> reply" where
  "ff_get_links k = Reply 200 (Some (JArr (links (readData k))))"

definition ff_post_links :: "disk \<Rightarrow> json \<Rightarrow> disk \<times> reply" where
  "ff_post_links k b =
     (let data = readData k;
          data' = data\<lparr>links := links data @ [b]\<rparr>;
          (success, k') = writeData k data'
      in (k', Reply 200 (Some (JObj [(''success'', JBool success), (''link'', b)]))))"

definition ff_delete_concerts_at :: "disk \<Rightarrow> int option \<Rightarrow> disk \<times> reply" where
  "ff_delete_concerts_at k index =
     (let data = readData k in
      case index of
        None \<Rightarrow> (k, bad_index)
      | Some i \<Rightarrow>
          if 0 \<le> i \<and> i < int (length (concerts data)) then
            let deleted = concerts data ! nat i;
                data' = data\<lparr>concerts := splice1 (nat i) (concerts data)\<rparr>;
                (success, k') = writeData k data'
            in (k', if deleted = JNull then Threw else success_reply success)
          else (k, bad_index))"

definition ff_delete_links_at :: "disk \<Rightarrow> int option \<Rightarrow> disk \<times> reply" where
  "ff_delete_links_at k index =
     (let data = readData k in
      case index of
        None \<Rightarrow> (k, bad_index)
      | Some i \<Rightarrow>
          if 0 \<le> i \<and> i < int (length (links data)) then
            let deleted = links data ! nat i;
                data' = data\<lparr>links := splice1 (nat i) (links data)\<rparr>;
                (success, k') = writeData k data'
            in (k', if deleted = JNull then Threw else success_reply success)
          else (k, bad_index))"

definition ff_delete_concerts :: "disk \<Rightarrow> string \<Rightarrow> disk \<times> reply" where
  "ff_delete_concerts k index = ff_delete_concerts_at k (parseInt index)"

definition ff_delete_links :: "disk \<Rightarrow> string \<Rightarrow> disk \<times> reply" where
  "ff_delete_links k index = ff_delete_links_at k (parseInt index)"

section \<open>Routing\<close>

text \<open>
  A request is a verb, the segments of its path (as Express hands them to a handler in
  \<open>req.params\<close>) and the body that \<open>express.json()\<close> parsed, an object or an array.
  Express tries the routes in the order the program registers them and runs the first
  that matches; no handler here passes the request on. A \<open>:name\<close> segment matches any
  non-empty segment.
\<close>

datatype verb = GET | POST | DELETE

record request =
  verb :: verb
  segments :: "string list"
  body :: json

datatype seg = Lit string | Par

fun match_path :: "seg list \<Rightarrow> string list \<Rightarrow> string list option" where
  "match_path [] [] = Some []"
| "match_path (Lit s # ps) (x # xs) = (if s = x then match_path ps xs else None)"
| "match_path (Par # ps) (x # xs) =
     (if x = [] then None else map_option ((#) x) (match_path ps xs))"
| "match_path _ _ = None"

definition route :: "verb \<Rightarrow> seg list \<Rightarrow> request \<Rightarrow> string list option" where
  "route m pat r = (if verb r = m then match_path pat (segments r) else None)"

definition not_found :: reply where
  "not_found = Reply 404 None"

text \<open>A routing table: verb, pattern and handler, in registration order.\<close>

type_synonym 's handler = "env \<Rightarrow> 's \<Rightarrow> string list \<Rightarrow> json \<Rightarrow> 's \<times> reply"

fun dispatch :: "(verb \<times> seg list \<times> 's handler) list \<Rightarrow> env \<Rightarrow> 's \<Rightarrow> request \<Rightarrow> 's \<times> reply" where
  "dispatch [] e s r = (s, not_found)"
| "dispatch ((m, pat, h) # rest) e s r =
     (case route m pat r of Some ps \<Rightarrow> h e s ps (body r) | None \<Rightarrow> dispatch rest e s r)"

definition ff_routes :: "(verb \<times> seg list \<times> disk handler) list" where
  "ff_routes =
     [(GET, [Lit ''api'', Lit ''data''], \<lambda>e k ps b. (k, ff_get_data k)),
      (GET, [Lit ''api'', Lit ''current-user'', Par], \<lambda>e k ps b. (k, ff_get_current_user k (ps ! 0))),
      (POST, [Lit ''api'', Lit ''current-user'', Par], \<lambda>e k ps b. ff_post_current_user k (ps ! 0) b),
      (GET, [Lit ''api'', Lit ''availability'', Par, Par, Par],
         \<lambda>e k ps b. (k, ff_get_availability e k (ps ! 0) (ps ! 1) (ps ! 2))),
      (POST, [Lit ''api'', Lit ''availability'', Par, Par, Par],
         \<lambda>e k ps b. ff_post_availability e k (ps ! 0) (ps ! 1) (ps ! 2) b),
      (GET, [Lit ''api'', Lit ''availability'', Lit ''all'', Par, Par],
         \<lambda>e k ps b. (k, ff_get_all_availability k (ps ! 0) (ps ! 1))),
      (GET, [Lit ''api'', Lit ''concerts''], \<lambda>e k ps b. (k, ff_get_concerts k)),
      (POST, [Lit ''api'', Lit ''concerts''], \<lambda>e k ps b. ff_post_concerts e k b),
      (DELETE, [Lit ''api'', Lit ''concerts'', Par], \<lambda>e k ps b. ff_delete_concerts k (ps ! 0)),
      (GET, [Lit ''api'', Lit ''links''], \<lambda>e k ps b. (k, ff_get_links k)),
      (POST, [Lit ''api'', Lit ''links''], \<lambda>e k ps b. ff_post_links k b),
      (DELETE, [Lit ''api'', Lit ''links'', Par], \<lambda>e k ps b. ff_delete_links k (ps ! 0)),
      (GET, [Lit ''api'', Lit ''health''], \<lambda>e k ps b. (k, ff_health e))]"

definition ff_serve :: "env \<Rightarrow> disk \<Rightarrow> request \<Rightarrow> disk \<times> reply" where
  "ff_serve e k r = dispatch ff_routes e k r"

definition pg_routes :: "(verb \<times> seg list \<times> db handler) list" where
  "pg_routes =
     [(GET, [Lit ''api'', Lit ''health''], \<lambda>e d ps b. (d, pg_health e d)),
      (GET, [Lit ''api'', Lit ''current-user'', Par], \<lambda>e d ps b. (d, pg_get_current_user d (ps ! 0))),
      (POST, [Lit ''api'', Lit ''current-user'', Par], \<lambda>e d ps b. pg_post_current_user d (ps ! 0) b),
      (GET, [Lit ''api'', Lit ''availability'', Par, Par, Par],
         \<lambda>e d ps b. (d, pg_get_availability e d (ps ! 0) (ps ! 1) (ps ! 2))),
      (POST, [Lit ''api'', Lit ''availability'', Par, Par, Par],
         \<lambda>e d ps b. pg_post_availability e d (ps ! 0) (ps ! 1) (ps ! 2) b),
      (GET, [Lit ''api'', Lit ''availability'', Lit ''all'', Par, Par],
         \<lambda>e d ps b. (d, pg_get_all_availability d (ps ! 0) (ps ! 1))),
      (GET, [Lit ''api'', Lit ''concerts''], \<lambda>e d ps b. (d, pg_get_list d ''concerts'')),
      (POST, [Lit ''api'', Lit ''concerts''], \<lambda>e d ps b. pg_post_concerts e d b),
      (DELETE, [Lit ''api'', Lit ''concerts'', Par], \<lambda>e d ps b. pg_delete_concerts d (ps ! 0)),
      (GET, [Lit ''api'', Lit ''links''], \<lambda>e d ps b. (d, pg_get_list d ''links'')),
      (POST, [Lit ''api'', Lit ''links''], \<lambda>e d ps b. pg_post_links d b),
      (DELETE, [Lit ''api'', Lit ''links'', Par], \<lambda>e d ps b. pg_delete_links d (ps ! 0))]"

definition pg_serve :: "env \<Rightarrow> db \<Rightarrow> request \<Rightarrow> db \<times> reply" where
  "pg_serve e d r = dispatch pg_routes e d r"

section \<open>Basic facts\<close>

lemma map_of_obj_set: "map_of (obj_set k v ps) k' = (if k' = k then Some v else map_of ps k')"
  by (induction ps) auto

lemma map_of_obj_del: "map_of (obj_del k ps) k' = (if k' = k then None else map_of ps k')"
  by (induction ps) (auto simp: obj_del_def)

lemma map_of_js_assign_other: "k' \<noteq> k \<Longrightarrow> map_of (js_assign k v ps) k' = map_of ps k'"
  by (simp add: js_assign_def map_of_obj_set map_of_obj_del split: option.splits)

lemma length_splice1: "i < length xs \<Longrightarrow> length (splice1 i xs) = length xs - 1"
  by (simp add: splice1_def)

lemma nth_splice1_before: "j < i \<Longrightarrow> i < length xs \<Longrightarrow> splice1 i xs ! j = xs ! j"
  by (simp add: splice1_def nth_append)

lemma nth_splice1_after: "i \<le> j \<Longrightarrow> Suc j < length xs \<Longrightarrow> splice1 i xs ! j = xs ! Suc j"
  by (simp add: splice1_def nth_append min_def)

lemma readData_unreadable:
  "data_file k = Missing \<or> data_file k = Corrupt \<Longrightarrow> readData k = initialData"
  by (auto simp: readData_def)

lemma readData_initial: "readData (k\<lparr>data_file := Content doc\<rparr>) = doc"
  by (simp add: readData_def)

lemma ff_get_current_user_absent:
  assumes "map_of (currentUsers (readData k)) userId = None"
    and "userId \<noteq> ''__proto__''" and "userId \<notin> set inherited_names"
  shows "ff_get_current_user k userId = Reply 200 (Some (JObj [(''user'', JNull)]))"
  using assms by (simp add: ff_get_current_user_def js_get_def js_or_def obj_lit_def)

lemma ff_get_availability_absent:
  assumes "decodeURIComponent e member = Some dm"
    and "map_of (availabilities (readData k)) (ff_availability_key dm year month) = None"
    and "ff_availability_key dm year month \<noteq> ''__proto__''"
    and "ff_availability_key dm year month \<notin> set inherited_names"
  shows "ff_get_availability e k member year month = Reply 200 (Some (JObj []))"
  using assms by (simp add: ff_get_availability_def js_get_def js_or_def)

lemma member_key_not_inherited:
  assumes "m \<in> set members"
  shows "ff_availability_key m y mo \<noteq> ''__proto__'' \<and> ff_availability_key m y mo \<notin> set inherited_names"
  using assms by (auto simp: members_def ff_availability_key_def inherited_names_def)

lemma ff_get_all_availability_empty:
  assumes "availabilities (readData k) = []"
  shows "ff_get_all_availability k year month =
           Reply 200 (Some (JObj (map (\<lambda>m. (m, JObj [])) members)))"
  using assms
  by (simp add: ff_get_all_availability_def members_def js_get_def js_or_def
        ff_availability_key_def inherited_names_def obj_lit_def)

section \<open>Unreadable data file\<close>

lemma ff_unreadable_replies:
  assumes "data_file k = Missing \<or> data_file k = Corrupt"
  shows "ff_get_data k = Reply 200 (Some (JObj [(''availabilities'', JObj []), (''concerts'', JArr []),
             (''links'', JArr []), (''currentUsers'', JObj [])]))"
    and "ff_get_concerts k = Reply 200 (Some (JArr []))"
    and "ff_get_links k = Reply 200 (Some (JArr []))"
    and "ff_get_all_availability k year month =
           Reply 200 (Some (JObj (map (\<lambda>m. (m, JObj [])) members)))"
proof -
  have rd: "readData k = initialData" using assms by (rule readData_unreadable)
  show "ff_get_data k = Reply 200 (Some (JObj [(''availabilities'', JObj []), (''concerts'', JArr []),
             (''links'', JArr []), (''currentUsers'', JObj [])]))"
    by (simp add: ff_get_data_def rd doc_json_def initialData_def)
  show "ff_get_concerts k = Reply 200 (Some (JArr []))"
    by (simp add: ff_get_concerts_def rd initialData_def)
  show "ff_get_links k = Reply 200 (Some (JArr []))"
    by (simp add: ff_get_links_def rd initialData_def)
  show "ff_get_all_availability k year month =
           Reply 200 (Some (JObj (map (\<lambda>m. (m, JObj [])) members)))"
    by (rule ff_get_all_availability_empty) (simp add: rd initialData_def)
qed

lemma ff_unreadable_current_user:
  assumes "data_file k = Missing \<or> data_file k = Corrupt"
    and "userId \<noteq> ''__proto__''" and "userId \<notin> set inherited_names"
  shows "ff_get_current_user k userId = Reply 200 (Some (JObj [(''user'', JNull)]))"
  using assms(2,3)
  by (intro ff_get_current_user_absent) (simp_all add: readData_unreadable [OF assms(1)] initialData_def)

lemma ff_unreadable_availability:
  assumes "data_file k = Missing \<or> data_file k = Corrupt"
    and "decodeURIComponent e member = Some dm"
    and "ff_availability_key dm year month \<noteq> ''__proto__''"
    and "ff_availability_key dm year month \<notin> set inherited_names"
  shows "ff_get_availability e k member year month = Reply 200 (Some (JObj []))"
  using assms(2,3,4)
  by (intro ff_get_availability_absent) (simp_all add: readData_unreadable [OF assms(1)] initialData_def)

lemma ff_get_availability_bad_escape:
  assumes "decodeURIComponent e member = None"
  shows "ff_get_availability e k member year month = Threw"
  using assms by (simp add: ff_get_availability_def)

text \<open>
  C10. In the flat-file server, when the data file is missing or does not parse,
  \<open>readData\<close> returns the fixed empty structure instead of failing (first two
  conjuncts), and the GET handlers answer from it: the whole document, the concert list,
  the link list and the group planning are empty (\<open>ff_unreadable_replies\<close>), and so are
  a current-user pointer and a member's month under a name that plain objects do not
  inherit (\<open>ff_unreadable_current_user\<close>, \<open>ff_unreadable_availability\<close>). Not every
  GET request is answered with the absent value, however: with the file missing the
  server answers the user \<open>__proto__\<close> with an empty object instead of null, the user
  \<open>constructor\<close> with a reply without a \<open>user\<close> member, the availability key
  \<open>__defineGetter__\<close> with an empty body, and it raises on a member that
  \<open>decodeURIComponent\<close> rejects.
\<close>

theorem ff_unreadable_file_inherited_property:
  "readData \<lparr>data_file = Missing, writable = True\<rparr> = initialData
   \<and> readData \<lparr>data_file = Corrupt, writable = True\<rparr> = initialData
   \<and> ff_get_current_user \<lparr>data_file = Missing, writable = True\<rparr> ''__proto__''
     = Reply 200 (Some (JObj [(''user'', JObj [])]))
   \<and> ff_get_current_user \<lparr>data_file = Corrupt, writable = True\<rparr> ''constructor''
     = Reply 200 (Some (JObj []))
   \<and> ff_get_availability \<lparr>now = 0, iso_now = [], decodeURIComponent = Some\<rparr>
       \<lparr>data_file = Missing, writable = True\<rparr> ''_'' ''defineGetter'' ''_''
     = Reply 200 None
   \<and> ff_get_availability
       \<lparr>now = 0, iso_now = [], decodeURIComponent = (\<lambda>s. if s = ''%'' then None else Some s)\<rparr>
       \<lparr>data_file = Missing, writable = True\<rparr> ''%'' ''2025'' ''05''
     = Threw"
  by (simp add: ff_get_current_user_def ff_get_availability_def readData_def initialData_def
      js_get_def js_or_def obj_lit_def inherited_names_def ff_availability_key_def)





lemma pg_null_replies:
  assumes "getData d (''current_user_'' @ userId) = JNull"
    and "getData d ''concerts'' = JNull" and "getData d ''links'' = JNull"
  shows "pg_get_current_user d userId = Reply 200 (Some (JObj [(''user'', JNull)]))"
    and "pg_get_list d ''concerts'' = Reply 200 (Some (JArr []))"
    and "pg_get_list d ''links'' = Reply 200 (Some (JArr []))"
  using assms by (simp_all add: pg_get_current_user_def pg_get_list_def obj_lit_def or_else_def)

lemma pg_get_availability_null:
  assumes "decodeURIComponent e member = Some dm"
    and "getData d (pg_availability_key dm year month) = JNull"
  shows "pg_get_availability e d member year month = Reply 200 (Some (JObj []))"
  using assms by (simp add: pg_get_availability_def or_else_def)

lemma pg_get_all_availability_null:
  assumes "\<forall>m \<in> set members. getData d (pg_availability_key m year month) = JNull"
  shows "pg_get_all_availability d year month =
           Reply 200 (Some (JObj (map (\<lambda>m. (m, JObj [])) members)))"
  using assms by (simp add: pg_get_all_availability_def or_else_def)

section \<open>Reading a key that was never written\<close>

text \<open>
  C3. A key that was never written reads as the absent value of its call site: null for
  a current-user pointer, the empty object for an availability map, the empty list for
  concerts and links. The PostgreSQL server does so (\<open>getData_absent\<close>,
  \<open>pg_null_replies\<close>, \<open>pg_get_availability_null\<close>), and so does the flat-file
  server for a name that plain objects do not inherit (\<open>ff_get_current_user_absent\<close>,
  \<open>ff_get_availability_absent\<close>). On the freshly initialised file, however, the
  flat-file server answers a request for the user \<open>__proto__\<close> with an empty object
  instead of null, a request for the user \<open>constructor\<close> with a reply that has no
  \<open>user\<close> member at all, and a request for the availability key
  \<open>__defineGetter__\<close> with an empty body.
\<close>

theorem ff_absent_key_reads_inherited_property:
  "ff_get_current_user \<lparr>data_file = Content initialData, writable = True\<rparr> ''__proto__''
     = Reply 200 (Some (JObj [(''user'', JObj [])]))
   \<and> ff_get_current_user \<lparr>data_file = Content initialData, writable = True\<rparr> ''constructor''
     = Reply 200 (Some (JObj []))
   \<and> ff_get_availability \<lparr>now = 0, iso_now = [], decodeURIComponent = Some\<rparr>
       \<lparr>data_file = Content initialData, writable = True\<rparr> ''_'' ''defineGetter'' ''_''
     = Reply 200 None"
  by (simp add: ff_get_current_user_def ff_get_availability_def readData_def initialData_def
      js_get_def js_or_def obj_lit_def inherited_names_def ff_availability_key_def)

section \<open>Write followed by read\<close>

lemma setData_then_getData:
  "setData d k v = (True, d') \<Longrightarrow> bound_document v = Some (getData d' k)"
  by (auto simp: setData_def getData_def split: option.splits if_splits)

lemma setData_object_then_getData:
  assumes "setData d k (Some (JObj ps)) = (True, d')"
  shows "getData d' k = JObj ps"
  using setData_then_getData [OF assms]
  by (simp add: bound_document_def split: if_splits)

lemma writeData_then_readData: "writeData s doc = (True, s') \<Longrightarrow> readData s' = doc"
  by (auto simp: writeData_def readData_def split: if_splits)

lemma js_get_js_assign:
  assumes "k \<noteq> ''__proto__'' \<or> map_of ps k \<noteq> None"
  shows "js_get (js_assign k (Some v) ps) k = Val v"
  using assms by (auto simp: js_get_def js_assign_def map_of_obj_set)

lemma ff_current_user_roundtrip:
  assumes "writable s" and "userId \<noteq> ''__proto__''" and "body_prop b ''user'' = Some v"
  shows "js_get (currentUsers (readData (fst (ff_post_current_user s userId b)))) userId = Val v"
  using assms
  by (simp add: ff_post_current_user_def writeData_def readData_initial Let_def js_get_js_assign)

lemma ff_availability_roundtrip:
  assumes "writable s" and "decodeURIComponent e member = Some dm"
    and "ff_availability_key dm year month \<noteq> ''__proto__''"
  shows "ff_get_availability e (fst (ff_post_availability e s member year month b)) member year month
           = Reply 200 (Some b) \<or> \<not> truthy b"
  using assms
  by (simp add: ff_post_availability_def ff_get_availability_def writeData_def readData_initial
      Let_def js_get_js_assign js_or_def)

text \<open>
  C4. A successful put of a value under a key, followed by a get of that key, returns
  that value. \<open>readData\<close> after a successful \<open>writeData\<close> does so
  (\<open>writeData_then_readData\<close>), and so does the flat-file server's assignment into the
  document for every key but one (\<open>js_get_js_assign\<close>, \<open>ff_current_user_roundtrip\<close>,
  \<open>ff_availability_roundtrip\<close>); \<open>getData\<close> after a successful \<open>setData\<close>
  returns the document that the column received (\<open>setData_then_getData\<close>), which is
  the value when that is an object (\<open>setData_object_then_getData\<close>). For the key
  \<open>__proto__\<close> the flat-file server reports success, leaves the file as it was, and
  the read that follows returns an empty object instead of the value.
\<close>

theorem ff_put_proto_key_is_lost:
  "ff_post_current_user \<lparr>data_file = Content initialData, writable = True\<rparr> ''__proto__''
       (JObj [(''user'', JStr ''Bass'')])
     = (\<lparr>data_file = Content initialData, writable = True\<rparr>,
        Reply 200 (Some (JObj [(''success'', JBool True), (''user'', JStr ''Bass'')])))
   \<and> ff_get_current_user (fst (ff_post_current_user \<lparr>data_file = Content initialData, writable = True\<rparr>
       ''__proto__'' (JObj [(''user'', JStr ''Bass'')]))) ''__proto__''
     = Reply 200 (Some (JObj [(''user'', JObj [])]))"
  by (simp add: ff_post_current_user_def ff_get_current_user_def readData_def writeData_def
      initialData_def body_prop_def js_assign_def js_get_def js_or_def obj_lit_def opt_val_def)

section \<open>Backend failure on a read\<close>




section \<open>The group planning route\<close>

lemma ff_all_route_shadowed:
  assumes "year \<noteq> []" and "month \<noteq> []"
  shows "ff_serve e s \<lparr>verb = GET, segments = [''api'', ''availability'', ''all'', year, month], body = b\<rparr>
           = (s, ff_get_availability e s ''all'' year month)"
  using assms by (simp add: ff_serve_def ff_routes_def route_def)

lemma pg_all_route_shadowed:
  assumes "year \<noteq> []" and "month \<noteq> []"
  shows "pg_serve e d \<lparr>verb = GET, segments = [''api'', ''availability'', ''all'', year, month], body = b\<rparr>
           = (d, pg_get_availability e d ''all'' year month)"
  using assms by (simp add: pg_serve_def pg_routes_def route_def)

text \<open>
  C6. On a store without availability writes the handler of
  \<open>/api/availability/all/:year/:month\<close> would answer with the six member names, each
  mapped to the empty object (\<open>ff_get_all_availability_empty\<close>,
  \<open>pg_get_all_availability_null\<close>). The request never reaches it: the route
  \<open>/api/availability/:member/:year/:month\<close> is registered first and matches with
  \<open>member = all\<close> (\<open>ff_all_route_shadowed\<close>, \<open>pg_all_route_shadowed\<close>), so both
  servers answer \<open>GET /api/availability/all/2025/05\<close> with the empty object.
\<close>

theorem get_all_availability_answers_empty_object:
  "snd (ff_serve \<lparr>now = 0, iso_now = [], decodeURIComponent = Some\<rparr>
          \<lparr>data_file = Content initialData, writable = True\<rparr>
          \<lparr>verb = GET, segments = [''api'', ''availability'', ''all'', ''2025'', ''05''], body = JObj []\<rparr>)
     = Reply 200 (Some (JObj []))
   \<and> snd (pg_serve \<lparr>now = 0, iso_now = [], decodeURIComponent = Some\<rparr>
          \<lparr>app_data = Map.empty, connected = True\<rparr>
          \<lparr>verb = GET, segments = [''api'', ''availability'', ''all'', ''2025'', ''05''], body = JObj []\<rparr>)
     = Reply 200 (Some (JObj []))
   \<and> ff_get_all_availability \<lparr>data_file = Content initialData, writable = True\<rparr> ''2025'' ''05''
     = Reply 200 (Some (JObj [(''Lead Guitar'', JObj []), (''Bass'', JObj []), (''Drums'', JObj []),
                               (''Keys'', JObj []), (''Saxophone'', JObj []), (''Vocals'', JObj [])]))"
proof -
  have 1: "snd (ff_serve \<lparr>now = 0, iso_now = [], decodeURIComponent = Some\<rparr>
          \<lparr>data_file = Content initialData, writable = True\<rparr>
          \<lparr>verb = GET, segments = [''api'', ''availability'', ''all'', ''2025'', ''05''], body = JObj []\<rparr>)
     = Reply 200 (Some (JObj []))"
    by (simp add: ff_all_route_shadowed ff_get_availability_def readData_def initialData_def
        js_get_def js_or_def ff_availability_key_def inherited_names_def)
  have 2: "snd (pg_serve \<lparr>now = 0, iso_now = [], decodeURIComponent = Some\<rparr>
          \<lparr>app_data = Map.empty, connected = True\<rparr>
          \<lparr>verb = GET, segments = [''api'', ''availability'', ''all'', ''2025'', ''05''], body = JObj []\<rparr>)
     = Reply 200 (Some (JObj []))"
    by (simp add: pg_all_route_shadowed pg_get_availability_def getData_def or_else_def)
  have 3: "ff_get_all_availability \<lparr>data_file = Content initialData, writable = True\<rparr> ''2025'' ''05''
     = Reply 200 (Some (JObj [(''Lead Guitar'', JObj []), (''Bass'', JObj []), (''Drums'', JObj []),
                               (''Keys'', JObj []), (''Saxophone'', JObj []), (''Vocals'', JObj [])]))"
    by (simp add: ff_get_all_availability_empty readData_def initialData_def members_def)
  from 1 2 3 show ?thesis by simp
qed

section \<open>Numerals and parseInt\<close>

lemma digit_char_props:
  assumes "d < 10"
  shows "digit_val (digit_char d) = Some d" and "is_digit 10 (digit_char d)"
    and "\<not> is_space (digit_char d)"
    and "digit_char d \<noteq> CHR ''-''" and "digit_char d \<noteq> CHR ''+''"
    and "digit_char d \<noteq> CHR ''x''" and "digit_char d \<noteq> CHR ''X''"
proof -
  have oc: "of_char (digit_char d) = 48 + d"
    using assms by (simp add: digit_char_def)
  show "digit_val (digit_char d) = Some d"
    using assms by (simp add: digit_val_def oc)
  then show "is_digit 10 (digit_char d)" using assms by (simp add: is_digit_def)
  show "\<not> is_space (digit_char d)" using assms by (auto simp: is_space_def oc)
  have ne: "\<And>c. (of_char c :: nat) \<noteq> 48 + d \<Longrightarrow> digit_char d \<noteq> c" using oc by auto
  show "digit_char d \<noteq> CHR ''-''" using assms by (intro ne) simp
  show "digit_char d \<noteq> CHR ''+''" using assms by (intro ne) simp
  show "digit_char d \<noteq> CHR ''x''" using assms by (intro ne) simp
  show "digit_char d \<noteq> CHR ''X''" using assms by (intro ne) simp
qed

lemma show_nat_chars: "c \<in> set (show_nat n) \<Longrightarrow> \<exists>d < 10. c = digit_char d"
proof (induction n rule: show_nat.induct)
  case (1 n)
  show ?case
  proof (cases "n < 10")
    case True
    with "1.prems" show ?thesis by (auto simp: show_nat.simps [of n])
  next
    case False
    with "1.prems" have "c \<in> set (show_nat (n div 10)) \<or> c = digit_char (n mod 10)"
      by (auto simp: show_nat.simps [of n])
    then show ?thesis
    proof
      assume "c \<in> set (show_nat (n div 10))"
      with "1.IH" False show ?thesis by blast
    next
      assume "c = digit_char (n mod 10)"
      moreover have "n mod 10 < 10" by simp
      ultimately show ?thesis by blast
    qed
  qed
qed

lemma show_nat_not_Nil: "show_nat n \<noteq> []"
  by (subst show_nat.simps) simp

lemma digits_value_snoc:
  "digits_value r (ds @ [c]) = digits_value r ds * r + the (digit_val c)"
  by (simp add: digits_value_def)

lemma digits_value_show_nat: "digits_value 10 (show_nat n) = n"
proof (induction n rule: show_nat.induct)
  case (1 n)
  show ?case
  proof (cases "n < 10")
    case True
    then show ?thesis
      by (simp add: show_nat.simps [of n] digits_value_def digit_char_props(1))
  next
    case False
    have "n mod 10 < 10" by simp
    then have "the (digit_val (digit_char (n mod 10))) = n mod 10"
      by (simp add: digit_char_props(1))
    with False "1.IH" show ?thesis
      by (simp add: show_nat.simps [of n] digits_value_snoc)
  qed
qed

lemma takeWhile_all: "(\<forall>x \<in> set xs. P x) \<Longrightarrow> takeWhile P xs = xs"
  by (simp add: takeWhile_eq_all_conv)

lemma parseInt_plain:
  assumes hds: "hd ds \<noteq> CHR ''-''" "hd ds \<noteq> CHR ''+''"
    and nohex: "take 2 ds \<noteq> ''0x''" "take 2 ds \<noteq> ''0X''"
    and tw: "\<forall>c \<in> set ds. is_digit 10 c" and dw: "dropWhile is_space ds = ds" and ne: "ds \<noteq> []"
  shows "parseInt ds = Some (int (digits_value 10 ds))"
  unfolding parseInt_def Let_def dw using hds nohex tw ne by (simp add: takeWhile_all)

lemma parseInt_minus:
  assumes nohex: "take 2 ds \<noteq> ''0x''" "take 2 ds \<noteq> ''0X''"
    and tw: "\<forall>c \<in> set ds. is_digit 10 c" and ne: "ds \<noteq> []"
  shows "parseInt (CHR ''-'' # ds) = Some (- int (digits_value 10 ds))"
proof -
  have dw: "dropWhile is_space (CHR ''-'' # ds) = CHR ''-'' # ds" by (simp add: is_space_def)
  show ?thesis
    unfolding parseInt_def Let_def dw using nohex tw ne by (simp add: takeWhile_all)
qed

lemma parseInt_digits:
  assumes "ds \<noteq> []" and "\<forall>c \<in> set ds. \<exists>d < 10. c = digit_char d"
  shows "parseInt ds = Some (int (digits_value 10 ds))"
    and "parseInt (CHR ''-'' # ds) = Some (- int (digits_value 10 ds))"
proof -
  have all: "is_digit 10 c \<and> \<not> is_space c \<and> c \<noteq> CHR ''-'' \<and> c \<noteq> CHR ''+''
               \<and> c \<noteq> CHR ''x'' \<and> c \<noteq> CHR ''X''" if "c \<in> set ds" for c
  proof -
    from that assms(2) obtain d where d: "d < 10" "c = digit_char d" by blast
    from digit_char_props [OF d(1)] d(2) show ?thesis by simp
  qed
  obtain a v where ds: "ds = a # v" using assms(1) by (cases ds) auto
  have a: "a \<noteq> CHR ''-''" "a \<noteq> CHR ''+''" "\<not> is_space a" using all [of a] ds by auto
  have nohex: "take 2 ds \<noteq> ''0x''" "take 2 ds \<noteq> ''0X''"
  proof -
    show "take 2 ds \<noteq> ''0x''"
    proof (cases v)
      case Nil with ds show ?thesis by simp
    next
      case (Cons b w)
      with ds all [of b] have "b \<noteq> CHR ''x''" by simp
      with Cons ds show ?thesis by simp
    qed
    show "take 2 ds \<noteq> ''0X''"
    proof (cases v)
      case Nil with ds show ?thesis by simp
    next
      case (Cons b w)
      with ds all [of b] have "b \<noteq> CHR ''X''" by simp
      with Cons ds show ?thesis by simp
    qed
  qed
  have tw: "\<forall>c \<in> set ds. is_digit 10 c" using all by blast
  have dw: "dropWhile is_space ds = ds" using a ds by simp
  have hds: "hd ds \<noteq> CHR ''-''" "hd ds \<noteq> CHR ''+''" using a ds by simp_all
  show "parseInt ds = Some (int (digits_value 10 ds))"
    using hds nohex tw dw assms(1) by (rule parseInt_plain)
  show "parseInt (CHR ''-'' # ds) = Some (- int (digits_value 10 ds))"
    using nohex tw assms(1) by (rule parseInt_minus)
qed

lemma parseInt_show_int: "parseInt (show_int i) = Some i"
proof (cases "i < 0")
  case True
  have "parseInt (CHR ''-'' # show_nat (nat (- i))) = Some (- int (digits_value 10 (show_nat (nat (- i)))))"
    using show_nat_not_Nil show_nat_chars by (intro parseInt_digits(2)) blast+
  with True show ?thesis by (simp add: show_int_def digits_value_show_nat)
next
  case False
  have "parseInt (show_nat (nat i)) = Some (int (digits_value 10 (show_nat (nat i))))"
    using show_nat_not_Nil show_nat_chars by (intro parseInt_digits(1)) blast+
  with False show ?thesis by (simp add: show_int_def digits_value_show_nat)
qed

section \<open>The index parameter\<close>

lemma parseInt_no_digit:
  assumes "\<forall>c \<in> set s. \<not> is_digit 10 c"
  shows "parseInt s = None"
proof -
  define t where "t = dropWhile is_space s"
  define u where "u = (if t \<noteq> [] \<and> (hd t = CHR ''-'' \<or> hd t = CHR ''+'') then tl t else t)"
  have "set t \<subseteq> set s" unfolding t_def by (meson set_dropWhileD subsetI)
  moreover have "set u \<subseteq> set t" unfolding u_def by (auto dest: list.set_sel(2))
  ultimately have nd: "\<forall>c \<in> set u. \<not> is_digit 10 c" using assms by blast
  have z: "is_digit 10 CHR ''0''" by (simp add: is_digit_def digit_val_def)
  have nohex: "take 2 u \<noteq> ''0x'' \<and> take 2 u \<noteq> ''0X''"
  proof (cases u)
    case Nil then show ?thesis by simp
  next
    case (Cons a v)
    with nd z have "a \<noteq> CHR ''0''" by auto
    with Cons show ?thesis by (cases v) auto
  qed
  have "takeWhile (is_digit 10) u = []"
    using nd by (cases u) auto
  with nohex show ?thesis
    unfolding parseInt_def Let_def t_def [symmetric] u_def [symmetric]
    by simp
qed

lemma is_digit_10_char:
  assumes "is_digit 10 c"
  shows "\<not> is_space c" and "c \<noteq> CHR ''-''" and "c \<noteq> CHR ''+''"
    and "c \<noteq> CHR ''x''" and "c \<noteq> CHR ''X''"
proof -
  have r: "48 \<le> (of_char c :: nat) \<and> (of_char c :: nat) \<le> 57"
    using assms by (auto simp: is_digit_def digit_val_def Let_def split: if_splits)
  show "\<not> is_space c" using r by (auto simp: is_space_def)
  show "c \<noteq> CHR ''-''" using r by auto
  show "c \<noteq> CHR ''+''" using r by auto
  show "c \<noteq> CHR ''x''" using r by auto
  show "c \<noteq> CHR ''X''" using r by auto
qed

lemma parseInt_core:
  assumes "hd s \<noteq> CHR ''-''" and "hd s \<noteq> CHR ''+''"
    and "take 2 s \<noteq> ''0x''" and "take 2 s \<noteq> ''0X''"
    and tw: "takeWhile (is_digit 10) s = ds" and "ds \<noteq> []"
    and dw: "dropWhile is_space s = s"
  shows "parseInt s = Some (int (digits_value 10 ds))"
  unfolding parseInt_def Let_def dw using assms(1-4,6) by (simp add: tw)

lemma parseInt_numeric_prefix:
  assumes ne: "ds \<noteq> []" and dig: "\<forall>c \<in> set ds. is_digit 10 c"
    and stop: "rest = [] \<or> \<not> is_digit 10 (hd rest)"
    and nohex: "\<not> (ds = ''0'' \<and> rest \<noteq> [] \<and> (hd rest = CHR ''x'' \<or> hd rest = CHR ''X''))"
  shows "parseInt (ds @ rest) = Some (int (digits_value 10 ds))"
proof -
  obtain a v where ds: "ds = a # v" using ne by (cases ds) auto
  have a: "is_digit 10 a" using dig ds by simp
  note af = is_digit_10_char [OF a]
  have h1: "hd (ds @ rest) \<noteq> CHR ''-''" and h2: "hd (ds @ rest) \<noteq> CHR ''+''"
    using af ds by simp_all
  have dw: "dropWhile is_space (ds @ rest) = ds @ rest" using af(1) ds by simp
  have tr: "takeWhile (is_digit 10) rest = []"
    using stop by (cases rest) auto
  have tw: "takeWhile (is_digit 10) (ds @ rest) = ds"
    using dig tr by (simp add: takeWhile_append2)
  have x1: "take 2 (ds @ rest) \<noteq> ''0x''"
  proof (cases v)
    case Nil
    show ?thesis
    proof (cases rest)
      case Nil with \<open>v = []\<close> ds show ?thesis by simp
    next
      case (Cons b w)
      with \<open>v = []\<close> ds nohex show ?thesis by auto
    qed
  next
    case (Cons b w)
    with dig ds have "is_digit 10 b" by simp
    from is_digit_10_char(4) [OF this] Cons ds show ?thesis by simp
  qed
  have x2: "take 2 (ds @ rest) \<noteq> ''0X''"
  proof (cases v)
    case Nil
    show ?thesis
    proof (cases rest)
      case Nil with \<open>v = []\<close> ds show ?thesis by simp
    next
      case (Cons b w)
      with \<open>v = []\<close> ds nohex show ?thesis by auto
    qed
  next
    case (Cons b w)
    with dig ds have "is_digit 10 b" by simp
    from is_digit_10_char(5) [OF this] Cons ds show ?thesis by simp
  qed
  from h1 h2 x1 x2 tw ne dw show ?thesis by (rule parseInt_core)
qed

lemma parseInt_1abc: "parseInt ''1abc'' = Some 1"
  by (simp add: parseInt_def is_space_def is_digit_def digit_val_def digits_value_def Let_def)

text \<open>
  C7 as stated, refuted: \<open>1abc\<close> is not a numeral, yet \<open>DELETE /api/concerts/1abc\<close>
  on a list of two concerts removes the second one and reports success.
\<close>

theorem non_numeral_index_counterexample:
  "ff_delete_concerts \<lparr>data_file = Content (initialData\<lparr>concerts := [JStr ''a'', JStr ''b'']\<rparr>),
                        writable = True\<rparr> ''1abc''
     = (\<lparr>data_file = Content (initialData\<lparr>concerts := [JStr ''a'']\<rparr>), writable = True\<rparr>,
        success_reply True)"
  by (simp add: ff_delete_concerts_def parseInt_1abc ff_delete_concerts_at_def splice1_def
      readData_def writeData_def initialData_def)

text \<open>
  C7, amended. When \<open>parseInt\<close> of the index parameter is \<open>NaN\<close>, the delete handlers
  of both servers answer with the 400 reply (success false, an error message) and leave
  the store as it was. \<open>parseInt\<close> is \<open>NaN\<close> in particular for every string without a
  decimal digit. A decimal numeral followed by text that does not begin with a decimal
  digit, nor with \<open>x\<close> or \<open>X\<close> after a lone \<open>0\<close>, is read as that numeral, so
  that every delete handler treats the string as it treats the numeral alone.
\<close>

theorem nan_index_is_rejected:
  "(parseInt s = None \<longrightarrow>
      pg_delete_concerts d s = (d, bad_index) \<and> pg_delete_links d s = (d, bad_index)
      \<and> ff_delete_concerts k s = (k, bad_index) \<and> ff_delete_links k s = (k, bad_index))
   \<and> ((\<forall>c \<in> set s. \<not> is_digit 10 c) \<longrightarrow> parseInt s = None)
   \<and> bad_index = Reply 400 (Some (JObj [(''success'', JBool False), (''error'', JStr ''Index invalide'')]))
   \<and> (ds \<noteq> [] \<and> (\<forall>c \<in> set ds. is_digit 10 c) \<and> (rest = [] \<or> \<not> is_digit 10 (hd rest))
        \<and> \<not> (ds = ''0'' \<and> rest \<noteq> [] \<and> (hd rest = CHR ''x'' \<or> hd rest = CHR ''X'')) \<longrightarrow>
      parseInt (ds @ rest) = Some (int (digits_value 10 ds))
      \<and> parseInt (ds @ rest) = parseInt ds
      \<and> pg_delete_concerts d (ds @ rest) = pg_delete_concerts d ds
      \<and> pg_delete_links d (ds @ rest) = pg_delete_links d ds
      \<and> ff_delete_concerts k (ds @ rest) = ff_delete_concerts k ds
      \<and> ff_delete_links k (ds @ rest) = ff_delete_links k ds)"
proof -
  have 1: "parseInt s = None \<longrightarrow>
      pg_delete_concerts d s = (d, bad_index) \<and> pg_delete_links d s = (d, bad_index)
      \<and> ff_delete_concerts k s = (k, bad_index) \<and> ff_delete_links k s = (k, bad_index)"
    by (simp add: pg_delete_concerts_def pg_delete_links_def ff_delete_concerts_def
        ff_delete_links_def pg_delete_at_def ff_delete_concerts_at_def ff_delete_links_at_def)
  have 2: "(\<forall>c \<in> set s. \<not> is_digit 10 c) \<longrightarrow> parseInt s = None"
    by (simp add: parseInt_no_digit)
  have 3: "bad_index = Reply 400 (Some (JObj [(''success'', JBool False), (''error'', JStr ''Index invalide'')]))"
    by (simp add: bad_index_def)
  have 4: "parseInt (ds @ rest) = Some (int (digits_value 10 ds)) \<and> parseInt (ds @ rest) = parseInt ds"
    if h: "ds \<noteq> []" "\<forall>c \<in> set ds. is_digit 10 c" "rest = [] \<or> \<not> is_digit 10 (hd rest)"
      "\<not> (ds = ''0'' \<and> rest \<noteq> [] \<and> (hd rest = CHR ''x'' \<or> hd rest = CHR ''X''))"
  proof -
    have a: "parseInt (ds @ rest) = Some (int (digits_value 10 ds))"
      using h by (rule parseInt_numeric_prefix)
    have "parseInt (ds @ []) = Some (int (digits_value 10 ds))"
      using h(1,2) by (intro parseInt_numeric_prefix) simp_all
    with a show ?thesis by simp
  qed
  have 5: "ds \<noteq> [] \<and> (\<forall>c \<in> set ds. is_digit 10 c) \<and> (rest = [] \<or> \<not> is_digit 10 (hd rest))
        \<and> \<not> (ds = ''0'' \<and> rest \<noteq> [] \<and> (hd rest = CHR ''x'' \<or> hd rest = CHR ''X'')) \<longrightarrow>
      parseInt (ds @ rest) = Some (int (digits_value 10 ds))
      \<and> parseInt (ds @ rest) = parseInt ds
      \<and> pg_delete_concerts d (ds @ rest) = pg_delete_concerts d ds
      \<and> pg_delete_links d (ds @ rest) = pg_delete_links d ds
      \<and> ff_delete_concerts k (ds @ rest) = ff_delete_concerts k ds
      \<and> ff_delete_links k (ds @ rest) = ff_delete_links k ds"
  proof (rule impI)
    assume H: "ds \<noteq> [] \<and> (\<forall>c \<in> set ds. is_digit 10 c) \<and> (rest = [] \<or> \<not> is_digit 10 (hd rest))
        \<and> \<not> (ds = ''0'' \<and> rest \<noteq> [] \<and> (hd rest = CHR ''x'' \<or> hd rest = CHR ''X''))"
    then have P: "parseInt (ds @ rest) = Some (int (digits_value 10 ds))"
      and Q: "parseInt (ds @ rest) = parseInt ds"
      using 4 by blast+
    have hs: "pg_delete_concerts d (ds @ rest) = pg_delete_concerts d ds"
      "pg_delete_links d (ds @ rest) = pg_delete_links d ds"
      "ff_delete_concerts k (ds @ rest) = ff_delete_concerts k ds"
      "ff_delete_links k (ds @ rest) = ff_delete_links k ds"
      by (simp_all only: pg_delete_concerts_def pg_delete_links_def ff_delete_concerts_def
          ff_delete_links_def Q)
    from P Q hs show "parseInt (ds @ rest) = Some (int (digits_value 10 ds))
      \<and> parseInt (ds @ rest) = parseInt ds
      \<and> pg_delete_concerts d (ds @ rest) = pg_delete_concerts d ds
      \<and> pg_delete_links d (ds @ rest) = pg_delete_links d ds
      \<and> ff_delete_concerts k (ds @ rest) = ff_delete_concerts k ds
      \<and> ff_delete_links k (ds @ rest) = ff_delete_links k ds"
      by (intro conjI)
  qed
  from 1 2 3 5 show ?thesis by (intro conjI)
qed

theorem nan_index_is_rejected_witness:
  "parseInt ''abc'' = None
   \<and> pg_delete_links \<lparr>app_data = [''links'' \<mapsto> JArr [JStr ''a'']], connected = True\<rparr> ''abc''
       = (\<lparr>app_data = [''links'' \<mapsto> JArr [JStr ''a'']], connected = True\<rparr>, bad_index)
   \<and> ff_delete_concerts \<lparr>data_file = Content initialData, writable = True\<rparr> ''abc''
       = (\<lparr>data_file = Content initialData, writable = True\<rparr>, bad_index)
   \<and> parseInt ''1abc'' = Some 1
   \<and> ff_delete_concerts \<lparr>data_file = Content initialData, writable = True\<rparr> ''1abc''
       = ff_delete_concerts \<lparr>data_file = Content initialData, writable = True\<rparr> ''1''"
proof -
  have nd: "\<forall>c \<in> set ''abc''. \<not> is_digit 10 c"
    by (simp add: is_digit_def digit_val_def)
  have pre: "''1'' \<noteq> [] \<and> (\<forall>c \<in> set ''1''. is_digit 10 c) \<and> (''abc'' = [] \<or> \<not> is_digit 10 (hd ''abc''))
        \<and> \<not> (''1'' = ''0'' \<and> ''abc'' \<noteq> [] \<and> (hd ''abc'' = CHR ''x'' \<or> hd ''abc'' = CHR ''X''))"
    by (simp add: is_digit_def digit_val_def)
  have dv: "digits_value 10 ''1'' = 1" by (simp add: digits_value_def digit_val_def)
  note t = nan_index_is_rejected [of "''abc''"
        "\<lparr>app_data = [''links'' \<mapsto> JArr [JStr ''a'']], connected = True\<rparr>"
        "\<lparr>data_file = Content initialData, writable = True\<rparr>" "''1''" "''abc''"]
  from t have "(\<forall>c \<in> set ''abc''. \<not> is_digit 10 c) \<longrightarrow> parseInt ''abc'' = None"
    by (rule conjunct1 [OF conjunct2])
  then have p: "parseInt ''abc'' = None" using nd by (rule mp)
  from t have "parseInt ''abc'' = None \<longrightarrow>
      pg_delete_concerts \<lparr>app_data = [''links'' \<mapsto> JArr [JStr ''a'']], connected = True\<rparr> ''abc''
        = (\<lparr>app_data = [''links'' \<mapsto> JArr [JStr ''a'']], connected = True\<rparr>, bad_index)
      \<and> pg_delete_links \<lparr>app_data = [''links'' \<mapsto> JArr [JStr ''a'']], connected = True\<rparr> ''abc''
        = (\<lparr>app_data = [''links'' \<mapsto> JArr [JStr ''a'']], connected = True\<rparr>, bad_index)
      \<and> ff_delete_concerts \<lparr>data_file = Content initialData, writable = True\<rparr> ''abc''
        = (\<lparr>data_file = Content initialData, writable = True\<rparr>, bad_index)
      \<and> ff_delete_links \<lparr>data_file = Content initialData, writable = True\<rparr> ''abc''
        = (\<lparr>data_file = Content initialData, writable = True\<rparr>, bad_index)"
    by (rule conjunct1)
  with p have q: "pg_delete_links \<lparr>app_data = [''links'' \<mapsto> JArr [JStr ''a'']], connected = True\<rparr> ''abc''
        = (\<lparr>app_data = [''links'' \<mapsto> JArr [JStr ''a'']], connected = True\<rparr>, bad_index)
      \<and> ff_delete_concerts \<lparr>data_file = Content initialData, writable = True\<rparr> ''abc''
        = (\<lparr>data_file = Content initialData, writable = True\<rparr>, bad_index)"
    by blast
  from t have "''1'' \<noteq> [] \<and> (\<forall>c \<in> set ''1''. is_digit 10 c) \<and> (''abc'' = [] \<or> \<not> is_digit 10 (hd ''abc''))
        \<and> \<not> (''1'' = ''0'' \<and> ''abc'' \<noteq> [] \<and> (hd ''abc'' = CHR ''x'' \<or> hd ''abc'' = CHR ''X'')) \<longrightarrow>
      parseInt (''1'' @ ''abc'') = Some (int (digits_value 10 ''1''))
      \<and> parseInt (''1'' @ ''abc'') = parseInt ''1''
      \<and> pg_delete_concerts \<lparr>app_data = [''links'' \<mapsto> JArr [JStr ''a'']], connected = True\<rparr> (''1'' @ ''abc'')
        = pg_delete_concerts \<lparr>app_data = [''links'' \<mapsto> JArr [JStr ''a'']], connected = True\<rparr> ''1''
      \<and> pg_delete_links \<lparr>app_data = [''links'' \<mapsto> JArr [JStr ''a'']], connected = True\<rparr> (''1'' @ ''abc'')
        = pg_delete_links \<lparr>app_data = [''links'' \<mapsto> JArr [JStr ''a'']], connected = True\<rparr> ''1''
      \<and> ff_delete_concerts \<lparr>data_file = Content initialData, writable = True\<rparr> (''1'' @ ''abc'')
        = ff_delete_concerts \<lparr>data_file = Content initialData, writable = True\<rparr> ''1''
      \<and> ff_delete_links \<lparr>data_file = Content initialData, writable = True\<rparr> (''1'' @ ''abc'')
        = ff_delete_links \<lparr>data_file = Content initialData, writable = True\<rparr> ''1''"
    by (rule conjunct2 [OF conjunct2 [OF conjunct2]])
  then have r: "parseInt (''1'' @ ''abc'') = Some (int (digits_value 10 ''1''))
      \<and> ff_delete_concerts \<lparr>data_file = Content initialData, writable = True\<rparr> (''1'' @ ''abc'')
        = ff_delete_concerts \<lparr>data_file = Content initialData, writable = True\<rparr> ''1''"
    using pre by blast
  from p q r dv show ?thesis by simp
qed

section \<open>The availability key\<close>




section \<open>What a write leaves alone\<close>

lemma ff_post_current_user_frame:
  assumes "data_file s = Content doc"
  shows "availabilities (readData (fst (ff_post_current_user s userId b))) = availabilities doc
       \<and> concerts (readData (fst (ff_post_current_user s userId b))) = concerts doc
       \<and> links (readData (fst (ff_post_current_user s userId b))) = links doc
       \<and> (\<forall>u. u \<noteq> userId \<longrightarrow>
            map_of (currentUsers (readData (fst (ff_post_current_user s userId b)))) u
              = map_of (currentUsers doc) u)"
  using assms
  by (simp add: ff_post_current_user_def writeData_def readData_def Let_def map_of_js_assign_other)

lemma ff_post_availability_frame:
  assumes "data_file s = Content doc"
  shows "currentUsers (readData (fst (ff_post_availability e s member year month b))) = currentUsers doc
       \<and> concerts (readData (fst (ff_post_availability e s member year month b))) = concerts doc
       \<and> links (readData (fst (ff_post_availability e s member year month b))) = links doc
       \<and> (\<forall>k. (\<forall>dm. decodeURIComponent e member = Some dm \<longrightarrow> k \<noteq> dm @ ''_'' @ year @ ''_'' @ month) \<longrightarrow>
            map_of (availabilities (readData (fst (ff_post_availability e s member year month b)))) k
              = map_of (availabilities doc) k)"
  using assms
  by (auto simp: ff_post_availability_def writeData_def readData_def Let_def map_of_js_assign_other
      ff_availability_key_def split: option.splits)

lemma ff_concerts_write_frame:
  assumes "data_file s = Content doc"
    and "s' = fst (ff_post_concerts e s b) \<or> s' = fst (ff_delete_concerts s index)"
  shows "availabilities (readData s') = availabilities doc \<and> links (readData s') = links doc
       \<and> currentUsers (readData s') = currentUsers doc"
  using assms
  by (auto simp: ff_post_concerts_def ff_delete_concerts_def ff_delete_concerts_at_def
      writeData_def readData_def Let_def split: option.splits)

lemma ff_links_write_frame:
  assumes "data_file s = Content doc"
    and "s' = fst (ff_post_links s b) \<or> s' = fst (ff_delete_links s index)"
  shows "availabilities (readData s') = availabilities doc \<and> concerts (readData s') = concerts doc
       \<and> currentUsers (readData s') = currentUsers doc"
  using assms
  by (auto simp: ff_post_links_def ff_delete_links_def ff_delete_links_at_def
      writeData_def readData_def Let_def split: option.splits)

text \<open>
  C9. In the flat-file server, with a data file that holds a document, a write of one
  entity leaves the rest of the document as it was: setting a current-user pointer keeps
  the availabilities, the concerts, the links and every other user's pointer; setting a
  member's month keeps the users, the concerts, the links and every other availability
  key; adding or deleting a concert keeps the availabilities, the links and the users;
  adding or deleting a link keeps the availabilities, the concerts and the users.
\<close>

theorem ff_single_entity_write_frame:
  assumes "data_file s = Content doc"
  shows "(availabilities (readData (fst (ff_post_current_user s userId b))) = availabilities doc
          \<and> concerts (readData (fst (ff_post_current_user s userId b))) = concerts doc
          \<and> links (readData (fst (ff_post_current_user s userId b))) = links doc
          \<and> (\<forall>u. u \<noteq> userId \<longrightarrow>
                map_of (currentUsers (readData (fst (ff_post_current_user s userId b)))) u
                  = map_of (currentUsers doc) u))
       \<and> (currentUsers (readData (fst (ff_post_availability e s member year month b))) = currentUsers doc
          \<and> concerts (readData (fst (ff_post_availability e s member year month b))) = concerts doc
          \<and> links (readData (fst (ff_post_availability e s member year month b))) = links doc
          \<and> (\<forall>k. (\<forall>dm. decodeURIComponent e member = Some dm \<longrightarrow> k \<noteq> dm @ ''_'' @ year @ ''_'' @ month) \<longrightarrow>
                map_of (availabilities (readData (fst (ff_post_availability e s member year month b)))) k
                  = map_of (availabilities doc) k))
       \<and> (\<forall>s'. s' = fst (ff_post_concerts e s b) \<or> s' = fst (ff_delete_concerts s index) \<longrightarrow>
            availabilities (readData s') = availabilities doc \<and> links (readData s') = links doc
            \<and> currentUsers (readData s') = currentUsers doc)
       \<and> (\<forall>s'. s' = fst (ff_post_links s b) \<or> s' = fst (ff_delete_links s index) \<longrightarrow>
            availabilities (readData s') = availabilities doc \<and> concerts (readData s') = concerts doc
            \<and> currentUsers (readData s') = currentUsers doc)"
  using ff_post_current_user_frame [OF assms, of userId b]
    ff_post_availability_frame [OF assms, of e member year month b]
    ff_concerts_write_frame [OF assms, of _ e b index]
    ff_links_write_frame [OF assms, of _ b index]
  by blast

theorem ff_single_entity_write_frame_witness:
  "readData (fst (ff_post_current_user
      \<lparr>data_file = Content \<lparr>availabilities = [(''Bass_2025_05'', JObj [])], concerts = [JObj []],
                              links = [JObj []], currentUsers = [(''u1'', JStr ''Bass'')]\<rparr>,
        writable = True\<rparr> ''u2'' (JObj [(''user'', JStr ''Keys'')])))
   = \<lparr>availabilities = [(''Bass_2025_05'', JObj [])], concerts = [JObj []],
       links = [JObj []], currentUsers = [(''u1'', JStr ''Bass''), (''u2'', JStr ''Keys'')]\<rparr>
   \<and> map_of (currentUsers (readData (fst (ff_post_current_user
      \<lparr>data_file = Content \<lparr>availabilities = [(''Bass_2025_05'', JObj [])], concerts = [JObj []],
                              links = [JObj []], currentUsers = [(''u1'', JStr ''Bass'')]\<rparr>,
        writable = True\<rparr> ''u2'' (JObj [(''user'', JStr ''Keys'')]))))) ''u1''
   = Some (JStr ''Bass'')"
proof -
  have h: "data_file \<lparr>data_file = Content \<lparr>availabilities = [(''Bass_2025_05'', JObj [])], concerts = [JObj []],
                              links = [JObj []], currentUsers = [(''u1'', JStr ''Bass'')]\<rparr>,
        writable = True\<rparr>
      = Content \<lparr>availabilities = [(''Bass_2025_05'', JObj [])], concerts = [JObj []],
                              links = [JObj []], currentUsers = [(''u1'', JStr ''Bass'')]\<rparr>"
    by simp
  have w: "readData (fst (ff_post_current_user
      \<lparr>data_file = Content \<lparr>availabilities = [(''Bass_2025_05'', JObj [])], concerts = [JObj []],
                              links = [JObj []], currentUsers = [(''u1'', JStr ''Bass'')]\<rparr>,
        writable = True\<rparr> ''u2'' (JObj [(''user'', JStr ''Keys'')])))
   = \<lparr>availabilities = [(''Bass_2025_05'', JObj [])], concerts = [JObj []],
       links = [JObj []], currentUsers = [(''u1'', JStr ''Bass''), (''u2'', JStr ''Keys'')]\<rparr>"
    by (simp add: ff_post_current_user_def readData_def writeData_def body_prop_def js_assign_def)
  show ?thesis
    using w ff_single_entity_write_frame [OF h, of "''u2''" "JObj [(''user'', JStr ''Keys'')]"
        "\<lparr>now = 0, iso_now = [], decodeURIComponent = Some\<rparr>" "''Bass''" "''2025''" "''05''" "''0''"]
    by simp
qed

section \<open>Delete by index\<close>

lemma setData_nonempty_array: "xs \<noteq> [] \<Longrightarrow> setData d k (Some (JArr xs)) = (False, d)"
  by (simp add: setData_def bound_document_def)

lemma setData_empty_array:
  "connected d \<Longrightarrow> key_ok k \<Longrightarrow>
     setData d k (Some (JArr [])) = (True, d\<lparr>app_data := (app_data d)(k \<mapsto> JObj [])\<rparr>)"
  by (simp add: setData_def bound_document_def)

lemma pg_delete_at_refused:
  assumes "connected d" and "app_data d key = Some (JArr xs)" and "0 \<le> i" and "i < int (length xs)"
    and "2 \<le> length xs"
  shows "fst (pg_delete_at d key (Some i)) = d"
proof -
  have "length (splice1 (nat i) xs) = length xs - 1"
    using assms(3,4) by (intro length_splice1) simp
  with assms(5) have "splice1 (nat i) xs \<noteq> []" by auto
  then show ?thesis
    using assms(1-4)
    by (simp add: pg_delete_at_def getData_def or_else_def setData_nonempty_array Let_def)
qed

lemma pg_delete_at_out_of_range:
  assumes "app_data d key = Some (JArr xs)" and "i < 0 \<or> int (length xs) \<le> i"
  shows "pg_delete_at d key (Some i) = (d, bad_index)"
  using assms by (auto simp: pg_delete_at_def getData_def or_else_def)

lemma ff_delete_concerts_at_in_range:
  assumes "data_file s = Content doc" and "writable s" and "0 \<le> i" and "i < int (length (concerts doc))"
  shows "fst (ff_delete_concerts_at s (Some i))
           = s\<lparr>data_file := Content (doc\<lparr>concerts := splice1 (nat i) (concerts doc)\<rparr>)\<rparr>"
  using assms by (simp add: ff_delete_concerts_at_def readData_def writeData_def Let_def)

lemma ff_delete_concerts_at_out_of_range:
  assumes "data_file s = Content doc" and "i < 0 \<or> int (length (concerts doc)) \<le> i"
  shows "ff_delete_concerts_at s (Some i) = (s, bad_index)"
  using assms by (auto simp: ff_delete_concerts_at_def readData_def)

lemma ff_delete_links_at_in_range:
  assumes "data_file s = Content doc" and "writable s" and "0 \<le> i" and "i < int (length (links doc))"
  shows "fst (ff_delete_links_at s (Some i))
           = s\<lparr>data_file := Content (doc\<lparr>links := splice1 (nat i) (links doc)\<rparr>)\<rparr>"
  using assms by (simp add: ff_delete_links_at_def readData_def writeData_def Let_def)

lemma ff_delete_links_at_out_of_range:
  assumes "data_file s = Content doc" and "i < 0 \<or> int (length (links doc)) \<le> i"
  shows "ff_delete_links_at s (Some i) = (s, bad_index)"
  using assms by (auto simp: ff_delete_links_at_def readData_def)

lemma splice1_removes_one:
  assumes "n < length xs"
  shows "length (splice1 n xs) = length xs - 1
       \<and> (\<forall>j < n. splice1 n xs ! j = xs ! j)
       \<and> (\<forall>j. n \<le> j \<and> Suc j < length xs \<longrightarrow> splice1 n xs ! j = xs ! Suc j)"
  using assms by (simp add: length_splice1 nth_splice1_before nth_splice1_after)

lemma ff_delete_by_index:
  assumes "data_file s = Content doc" and "writable s"
  shows "(0 \<le> i \<and> i < int (length (concerts doc)) \<longrightarrow>
            fst (ff_delete_concerts s (show_int i))
              = s\<lparr>data_file := Content (doc\<lparr>concerts := splice1 (nat i) (concerts doc)\<rparr>)\<rparr>)
       \<and> (i < 0 \<or> int (length (concerts doc)) \<le> i \<longrightarrow> ff_delete_concerts s (show_int i) = (s, bad_index))
       \<and> (0 \<le> i \<and> i < int (length (links doc)) \<longrightarrow>
            fst (ff_delete_links s (show_int i))
              = s\<lparr>data_file := Content (doc\<lparr>links := splice1 (nat i) (links doc)\<rparr>)\<rparr>)
       \<and> (i < 0 \<or> int (length (links doc)) \<le> i \<longrightarrow> ff_delete_links s (show_int i) = (s, bad_index))"
proof -
  note p = parseInt_show_int [of i]
  have 5: "0 \<le> i \<and> i < int (length (concerts doc)) \<longrightarrow>
            fst (ff_delete_concerts s (show_int i))
              = s\<lparr>data_file := Content (doc\<lparr>concerts := splice1 (nat i) (concerts doc)\<rparr>)\<rparr>"
    using assms by (simp add: ff_delete_concerts_def p ff_delete_concerts_at_in_range)
  have 6: "i < 0 \<or> int (length (concerts doc)) \<le> i \<longrightarrow> ff_delete_concerts s (show_int i) = (s, bad_index)"
    using assms(1) by (simp add: ff_delete_concerts_def p ff_delete_concerts_at_out_of_range)
  have 7: "0 \<le> i \<and> i < int (length (links doc)) \<longrightarrow>
            fst (ff_delete_links s (show_int i))
              = s\<lparr>data_file := Content (doc\<lparr>links := splice1 (nat i) (links doc)\<rparr>)\<rparr>"
    using assms by (simp add: ff_delete_links_def p ff_delete_links_at_in_range)
  have 8: "i < 0 \<or> int (length (links doc)) \<le> i \<longrightarrow> ff_delete_links s (show_int i) = (s, bad_index)"
    using assms(1) by (simp add: ff_delete_links_def p ff_delete_links_at_out_of_range)
  from 5 6 7 8 show ?thesis by (intro conjI)
qed

lemma pg_delete_by_index:
  assumes "connected d" and "app_data d key = Some (JArr xs)"
  shows "(0 \<le> i \<and> i < int (length xs) \<and> 2 \<le> length xs \<longrightarrow>
            fst (pg_delete_at d key (parseInt (show_int i))) = d)
       \<and> (i < 0 \<or> int (length xs) \<le> i \<longrightarrow> pg_delete_at d key (parseInt (show_int i)) = (d, bad_index))"
  using assms
  by (simp add: parseInt_show_int pg_delete_at_refused pg_delete_at_out_of_range)

text \<open>
  C1. A delete with an index inside the stored list removes exactly that element and
  writes the new list back; with an index outside it changes nothing and answers 400 with
  success false and an error message. The flat-file server does both
  (\<open>ff_delete_by_index\<close>, \<open>splice1_removes_one\<close>), and the PostgreSQL server does the
  second (\<open>pg_delete_by_index\<close>). The PostgreSQL server does not write the new list
  back: \<open>setData\<close> hands the array to the query as it is and the column refuses a
  non-empty array (\<open>setData_nonempty_array\<close>), so a delete of element 0 from a stored
  list of two leaves the row as it was and answers with success false; from a stored list
  of one it stores the empty object in place of the empty list, and the list route then
  returns that object.
\<close>

theorem pg_delete_does_not_write_list_back:
  "pg_delete_concerts
      \<lparr>app_data = [''concerts'' \<mapsto> JArr [JStr ''a'', JStr ''b'']], connected = True\<rparr> ''0''
     = (\<lparr>app_data = [''concerts'' \<mapsto> JArr [JStr ''a'', JStr ''b'']], connected = True\<rparr>,
        Reply 200 (Some (JObj [(''success'', JBool False)])))
   \<and> pg_delete_links
      \<lparr>app_data = [''links'' \<mapsto> JArr [JStr ''x'']], connected = True\<rparr> ''0''
     = (\<lparr>app_data = [''links'' \<mapsto> JObj []], connected = True\<rparr>,
        Reply 200 (Some (JObj [(''success'', JBool True)])))
   \<and> pg_get_list \<lparr>app_data = [''links'' \<mapsto> JObj []], connected = True\<rparr> ''links''
     = Reply 200 (Some (JObj []))"
proof -
  have p: "parseInt ''0'' = Some 0"
    by (simp add: parseInt_def is_space_def is_digit_def digit_val_def digits_value_def Let_def)
  have 1: "pg_delete_concerts
      \<lparr>app_data = [''concerts'' \<mapsto> JArr [JStr ''a'', JStr ''b'']], connected = True\<rparr> ''0''
     = (\<lparr>app_data = [''concerts'' \<mapsto> JArr [JStr ''a'', JStr ''b'']], connected = True\<rparr>,
        Reply 200 (Some (JObj [(''success'', JBool False)])))"
    by (simp add: pg_delete_concerts_def p pg_delete_at_def getData_def or_else_def splice1_def
        setData_nonempty_array success_reply_def)
  have 2: "pg_delete_links
      \<lparr>app_data = [''links'' \<mapsto> JArr [JStr ''x'']], connected = True\<rparr> ''0''
     = (\<lparr>app_data = [''links'' \<mapsto> JObj []], connected = True\<rparr>,
        Reply 200 (Some (JObj [(''success'', JBool True)])))"
    by (simp add: pg_delete_links_def p pg_delete_at_def getData_def or_else_def splice1_def
        setData_empty_array key_ok_def success_reply_def)
  have 3: "pg_get_list \<lparr>app_data = [''links'' \<mapsto> JObj []], connected = True\<rparr> ''links''
     = Reply 200 (Some (JObj []))"
    by (simp add: pg_get_list_def getData_def or_else_def)
  from 1 2 3 show ?thesis by (intro conjI)
qed

section \<open>Adding a concert\<close>

lemma stamp_props:
  "body_prop (stamp e b) ''addedAt'' = Some (JNum (now e))
   \<and> (\<forall>n. n \<noteq> ''addedAt'' \<longrightarrow> body_prop (stamp e b) n = map_of (spread b) n)"
  by (simp add: stamp_def body_prop_def map_of_obj_set)

lemma stamp_keeps_members:
  "body_prop (stamp e (JObj ps)) ''location'' = body_prop (JObj ps) ''location''
   \<and> body_prop (stamp e (JObj ps)) ''date'' = body_prop (JObj ps) ''date''"
  by (simp add: stamp_def body_prop_def map_of_obj_set spread_def)

lemma pg_push_never_stores: "fst (pg_push d k label item) = d"
  by (simp add: pg_push_def setData_nonempty_array split: json.splits)

lemma pg_post_concerts_never_stores: "fst (pg_post_concerts e d b) = d"
  by (simp add: pg_post_concerts_def pg_push_never_stores)

lemma ff_post_concerts_appends:
  assumes "data_file s = Content doc" and "writable s"
  shows "ff_post_concerts e s b
           = (s\<lparr>data_file := Content (doc\<lparr>concerts := concerts doc @ [stamp e b]\<rparr>)\<rparr>,
              Reply 200 (Some (JObj [(''success'', JBool True), (''concert'', stamp e b)])))"
  using assms by (simp add: ff_post_concerts_def readData_def writeData_def Let_def)

lemma ff_post_then_get_concerts:
  assumes "data_file s = Content doc" and "writable s"
  shows "ff_get_concerts (fst (ff_post_concerts e s b))
           = Reply 200 (Some (JArr (concerts doc @ [stamp e b])))"
  by (simp add: ff_post_concerts_appends [OF assms] ff_get_concerts_def readData_def)

text \<open>
  C2. \<open>POST /api/concerts\<close> makes the stored list one longer, its new last element the
  body with the server's \<open>addedAt\<close>, and the \<open>GET\<close> that follows returns it. The
  flat-file server does so (\<open>ff_post_concerts_appends\<close>, \<open>ff_post_then_get_concerts\<close>,
  \<open>stamp_props\<close>, \<open>stamp_keeps_members\<close>). The PostgreSQL server never stores the
  concert (\<open>pg_post_concerts_never_stores\<close>): it hands the array to the query as it is
  and the column refuses it, so on an empty table the reply to the \<open>POST\<close> carries
  success false next to the stamped concert, and the \<open>GET\<close> that follows returns the
  empty list.
\<close>

theorem pg_post_concert_is_not_stored:
  "pg_post_concerts \<lparr>now = 1746057600000, iso_now = [], decodeURIComponent = Some\<rparr>
       \<lparr>app_data = Map.empty, connected = True\<rparr>
       (JObj [(''location'', JStr ''Venue A''), (''date'', JStr ''2025-05-01'')])
     = (\<lparr>app_data = Map.empty, connected = True\<rparr>,
        Reply 200 (Some (JObj [(''success'', JBool False),
          (''concert'', JObj [(''location'', JStr ''Venue A''), (''date'', JStr ''2025-05-01''),
                              (''addedAt'', JNum 1746057600000)])])))
   \<and> pg_get_list (fst (pg_post_concerts \<lparr>now = 1746057600000, iso_now = [], decodeURIComponent = Some\<rparr>
       \<lparr>app_data = Map.empty, connected = True\<rparr>
       (JObj [(''location'', JStr ''Venue A''), (''date'', JStr ''2025-05-01'')]))) ''concerts''
     = Reply 200 (Some (JArr []))"
  by (simp add: pg_post_concerts_def pg_push_def getData_def or_else_def setData_nonempty_array
      stamp_def spread_def pg_get_list_def)

end
